theory Spec2Isabelle
  imports Main
begin

section \<open>Request correlation, request logging and the server lifecycle of chi\_server\<close>

text \<open>
  The package is glue over \<^verbatim>\<open>net/http\<close>, the chi router, \<^verbatim>\<open>log/slog\<close> and
  \<^verbatim>\<open>google/uuid\<close>. The middlewares and the constructor of \<^verbatim>\<open>middleware.go\<close> are
  embedded as functions on explicit state, and \<^verbatim>\<open>Run\<close>, which races a goroutine against
  a context, as the steps its two goroutines and their environment can take. What the
  libraries decide (how a header name is canonicalised, which text a new UUID has, which
  logger is the process default, what chi's own middlewares do) is taken as a parameter.
\<close>

subsection \<open>Contexts\<close>

text \<open>
  A value of interface type \<^verbatim>\<open>any\<close> carries its dynamic type. \<^verbatim>\<open>Any_nil\<close> is the nil
  interface, which \<^verbatim>\<open>ctx.Value\<close> returns for a key that is not bound.
\<close>

datatype any = Any_nil | Any_string string | Any_int int | Any_bool bool

text \<open>
  Context keys are compared with their type: \<^verbatim>\<open>CorrelationIDKey\<close> is the constant 0 of
  the package's own type \<^verbatim>\<open>ctxKeyCorrelationID\<close>; every other key is \<^verbatim>\<open>OtherKey\<close>.
\<close>

datatype ctxKey = CorrelationIDKey | OtherKey string

text \<open>
  \<^verbatim>\<open>context.Background()\<close> and the chain that \<^verbatim>\<open>context.WithValue\<close> builds. A context is
  never nil: package \<^verbatim>\<open>context\<close> forbids passing a nil \<^verbatim>\<open>Context\<close>.
\<close>

datatype go_context = Background | WithValue go_context ctxKey any

fun Value :: "go_context \<Rightarrow> ctxKey \<Rightarrow> any" where
  "Value Background key = Any_nil"
| "Value (WithValue parent k val) key = (if k = key then val else Value parent key)"

text \<open>The keys bound somewhere along the chain.\<close>

fun bound_keys :: "go_context \<Rightarrow> ctxKey set" where
  "bound_keys Background = {}"
| "bound_keys (WithValue parent k val) = insert k (bound_keys parent)"

text \<open>
  The comma-ok type assertion \<^verbatim>\<open>val, ok := x.(string)\<close>: it never panics, and gives the
  zero string with \<^verbatim>\<open>ok = false\<close> when the dynamic type is not \<^verbatim>\<open>string\<close>.
\<close>

fun assert_string :: "any \<Rightarrow> string \<times> bool" where
  "assert_string (Any_string s) = (s, True)"
| "assert_string x = ('''', False)"

definition GetCorrID :: "go_context \<Rightarrow> string" where
  "GetCorrID ctx =
     (let (val, ok) = assert_string (Value ctx CorrelationIDKey)
      in if ok then val else '''')"

subsection \<open>Headers, requests and response writers\<close>

text \<open>
  \<^verbatim>\<open>http.Header\<close> is a \<^verbatim>\<open>map[string][]string\<close>. \<^verbatim>\<open>Get\<close> and \<^verbatim>\<open>Set\<close> canonicalise the
  name they are given (\<^verbatim>\<open>textproto.CanonicalMIMEHeaderKey\<close>) before they touch the map;
  \<^verbatim>\<open>Get\<close> returns the first value under the key, or the empty string.
\<close>

type_synonym header = "string \<rightharpoonup> string list"

text \<open>
  The writer at the bottom of a chain, after \<^verbatim>\<open>httptest.ResponseRecorder\<close>, which the
  package's tests hand to the middlewares: its code, its header map, the body bytes it has
  taken, and whether the header has been written. Its sniffing of a content type on the
  first write is left out.
\<close>

record recorder =
  Code :: int
  HeaderMap :: header
  Body :: string
  rec_wroteHeader :: bool

text \<open>
  What the libraries decide, as parameters of the model. \<^verbatim>\<open>sink_Write rc buf\<close> is the
  number of bytes of the buffer \<^verbatim>\<open>buf\<close> that the bottom writer takes in state \<^verbatim>\<open>rc\<close>, the
  \<^verbatim>\<open>n\<close> its \<^verbatim>\<open>Write\<close> returns: the whole buffer for a recorder, nothing for a server
  response whose status allows no body (\<^verbatim>\<open>http.ErrBodyNotAllowed\<close>) or whose connection
  is gone.
\<close>

datatype logger = Slog nat

record deps =
  CanonicalMIMEHeaderKey :: "string \<Rightarrow> string"
  uuid_New_String :: "nat \<Rightarrow> string"
  slog_Default :: logger
  sink_Write :: "recorder \<Rightarrow> string \<Rightarrow> nat"

definition Header_Get :: "deps \<Rightarrow> header \<Rightarrow> string \<Rightarrow> string" where
  "Header_Get d h key =
     (case h (CanonicalMIMEHeaderKey d key) of
        None \<Rightarrow> ''''
      | Some [] \<Rightarrow> ''''
      | Some (v # vs) \<Rightarrow> v)"

definition Header_Set :: "deps \<Rightarrow> header \<Rightarrow> string \<Rightarrow> string \<Rightarrow> header" where
  "Header_Set d h key v = h(CanonicalMIMEHeaderKey d key \<mapsto> [v])"

record request =
  Method :: string
  URL_Path :: string
  RemoteAddr :: string
  ProtoMajor :: int
  Header :: header
  Context :: go_context

text \<open>
  What ends a call without a return: the dereference of a nil pointer, the panic of
  \<^verbatim>\<open>net/http\<close> on a status code that has not three digits (\<^verbatim>\<open>checkWriteHeaderCode\<close>), a
  panic of a handler's own.
\<close>

datatype panic = NilPointerDereference | InvalidWriteHeaderCode int | HandlerPanic string

text \<open>
  Modelled from the spec: \<^verbatim>\<open>middleware.NewWrapResponseWriter\<close> of chi, the ResponseObserver
  that \<^verbatim>\<open>RequestLogger\<close> wraps around the writer, is imported by \<^verbatim>\<open>middleware.go\<close> and is
  not under \<^verbatim>\<open>src/\<close>. The spec: it "wraps the outbound response sink transparently
  -- all writes pass through unchanged -- while recording the final status code (default 200
  if never explicitly set before first write, matching standard HTTP semantics) and the
  cumulative byte count written". \<^verbatim>\<open>basicWriter inner wroteHeader code bytes\<close> is that
  wrapper around \<^verbatim>\<open>inner\<close>; its fields start at Go's zero values. The equations for
  \<^verbatim>\<open>basicWriter\<close> of \<^verbatim>\<open>WriteHeader\<close>, \<^verbatim>\<open>maybeWriteHeader\<close>, \<^verbatim>\<open>Write\<close>, \<^verbatim>\<open>Status\<close>,
  \<^verbatim>\<open>BytesWritten\<close> and \<^verbatim>\<open>Unwrap\<close>, and \<^verbatim>\<open>NewWrapResponseWriter\<close>, are this model.
\<close>

datatype writer =
    ResponseRecorder recorder
  | basicWriter writer bool int int

fun rw_Header :: "writer \<Rightarrow> header" where
  "rw_Header (ResponseRecorder rc) = HeaderMap rc"
| "rw_Header (basicWriter inner wrote code bytes) = rw_Header inner"

text \<open>The map that \<^verbatim>\<open>w.Header()\<close> returns is shared with the writer: a change is written back.\<close>

fun rw_Header_update :: "writer \<Rightarrow> header \<Rightarrow> writer" where
  "rw_Header_update (ResponseRecorder rc) h = ResponseRecorder (rc\<lparr>HeaderMap := h\<rparr>)"
| "rw_Header_update (basicWriter inner wrote code bytes) h =
     basicWriter (rw_Header_update inner h) wrote code bytes"

text \<open>
  \<^verbatim>\<open>WriteHeader\<close>. The bottom writer ignores the call once the header is written;
  otherwise it panics on a code below 100 or above 999, and else fixes the code. The
  wrapper records the first code it is given and hands it on; the panic of the writer
  below, if any, passes through it, after the code is recorded.
\<close>

fun WriteHeader :: "writer \<Rightarrow> int \<Rightarrow> panic option \<times> writer" where
  "WriteHeader (ResponseRecorder rc) c =
     (if rec_wroteHeader rc then (None, ResponseRecorder rc)
      else if c < 100 \<or> 999 < c then (Some (InvalidWriteHeaderCode c), ResponseRecorder rc)
      else (None, ResponseRecorder (rc\<lparr>Code := c, rec_wroteHeader := True\<rparr>)))"
| "WriteHeader (basicWriter inner wrote code bytes) c =
     (if \<not> wrote then
        (case WriteHeader inner c of (p, inner') \<Rightarrow> (p, basicWriter inner' True c bytes))
      else (None, basicWriter inner wrote code bytes))"

text \<open>
  \<^verbatim>\<open>maybeWriteHeader\<close>: a writer that has seen no \<^verbatim>\<open>WriteHeader\<close> writes the default
  \<^verbatim>\<open>http.StatusOK\<close> first. That code has three digits, so this call of \<^verbatim>\<open>WriteHeader\<close>
  returns (lemma \<^verbatim>\<open>WriteHeader_StatusOK\<close> below), and only the writer is kept.
\<close>

definition StatusOK :: int where
  "StatusOK = 200"

fun maybeWriteHeader :: "writer \<Rightarrow> writer" where
  "maybeWriteHeader (basicWriter inner wrote code bytes) =
     (if \<not> wrote then snd (WriteHeader (basicWriter inner wrote code bytes) StatusOK)
      else basicWriter inner wrote code bytes)"
| "maybeWriteHeader (ResponseRecorder rc) =
     (if \<not> rec_wroteHeader rc then snd (WriteHeader (ResponseRecorder rc) StatusOK)
      else ResponseRecorder rc)"

text \<open>
  \<^verbatim>\<open>Write\<close> returns the writer and the number of bytes taken. The bottom writer takes
  what \<^verbatim>\<open>sink_Write\<close> says, at most the buffer. The wrapper hands the buffer to the writer
  it wraps and adds what that writer took to its count. In both equations
  \<^verbatim>\<open>maybeWriteHeader\<close> gives back a writer of the kind it was given; the last branch of each
  \<^verbatim>\<open>case\<close> is there for totality only.
\<close>

function Write :: "deps \<Rightarrow> writer \<Rightarrow> string \<Rightarrow> writer \<times> int" where
  "Write d (ResponseRecorder rc) buf =
     (case maybeWriteHeader (ResponseRecorder rc) of
        ResponseRecorder rc' \<Rightarrow>
          (let n = min (sink_Write d rc' buf) (length buf)
           in (ResponseRecorder (rc'\<lparr>Body := Body rc' @ take n buf\<rparr>), int n))
      | w' \<Rightarrow> (w', 0))"
| "Write d (basicWriter inner wrote code bytes) buf =
     (case maybeWriteHeader (basicWriter inner wrote code bytes) of
        basicWriter inner' wrote' code' bytes' \<Rightarrow>
          (let (inner'', n) = Write d inner' buf
           in (basicWriter inner'' wrote' code' (bytes' + n), n))
      | w' \<Rightarrow> (w', 0))"
  by pat_completeness auto
termination
proof (relation "measure (\<lambda>(d, w, buf). size w)")
  show "wf (measure (\<lambda>(d, w, buf). size w))" by simp
next
  fix d inner wrote code bytes buf inner' wrote' code' bytes'
  assume m: "maybeWriteHeader (basicWriter inner wrote code bytes) = basicWriter inner' wrote' code' bytes'"
  have "size (snd (WriteHeader w c)) = size w" for w c
  proof (induction w arbitrary: c)
    case (ResponseRecorder rc)
    show ?case by simp
  next
    case (basicWriter inner wrote code bytes)
    from basicWriter [of c] show ?case
      by (cases "WriteHeader inner c") auto
  qed
  from this [of inner StatusOK] m have "size inner' = size inner"
    by (auto split: if_splits prod.splits)
  then show "((d, inner', buf), (d, basicWriter inner wrote code bytes, buf))
               \<in> measure (\<lambda>(d, w, buf). size w)"
    by simp
qed

text \<open>The body bytes that the bottom writer of a chain of wrappers has taken.\<close>

fun body_of :: "writer \<Rightarrow> string" where
  "body_of (ResponseRecorder rc) = Body rc"
| "body_of (basicWriter inner wrote code bytes) = body_of inner"

definition NewRecorder :: writer where
  "NewRecorder = ResponseRecorder \<lparr>Code = 200, HeaderMap = Map.empty, Body = [], rec_wroteHeader = False\<rparr>"

definition NewWrapResponseWriter :: "writer \<Rightarrow> int \<Rightarrow> writer" where
  "NewWrapResponseWriter w protoMajor = basicWriter w False 0 0"

fun Status :: "writer \<Rightarrow> int" where
  "Status (basicWriter inner wrote code bytes) = code"
| "Status (ResponseRecorder rc) = Code rc"

fun BytesWritten :: "writer \<Rightarrow> int" where
  "BytesWritten (basicWriter inner wrote code bytes) = bytes"
| "BytesWritten (ResponseRecorder rc) = int (length (Body rc))"

text \<open>The writer a wrapper was built around, as its caller sees it after the call.\<close>

fun Unwrap :: "writer \<Rightarrow> writer" where
  "Unwrap (basicWriter inner wrote code bytes) = inner"
| "Unwrap (ResponseRecorder rc) = ResponseRecorder rc"

subsection \<open>The process: clock, UUID source, log output, header name\<close>

datatype attr_value = StringValue string | IntValue int | DurationValue int

record log_record =
  log_logger :: logger
  log_msg :: string
  log_attrs :: "(string \<times> attr_value) list"

text \<open>
  \<^verbatim>\<open>CorrelationIDHeader\<close> is the package's exported variable; \<^verbatim>\<open>clock\<close> is what
  \<^verbatim>\<open>time.Now()\<close> reads, in nanoseconds; \<^verbatim>\<open>uuids\<close> counts the calls of \<^verbatim>\<open>uuid.New()\<close>;
  \<^verbatim>\<open>log_output\<close> holds the records handed to loggers, oldest first.
\<close>

record world =
  CorrelationIDHeader :: string
  clock :: int
  uuids :: nat
  log_output :: "log_record list"

definition initial_world :: world where
  "initial_world = \<lparr>CorrelationIDHeader = ''X-Correlation-ID'', clock = 0, uuids = 0, log_output = []\<rparr>"

text \<open>\<^verbatim>\<open>uuid.New().String()\<close>: one draw from the source.\<close>

definition uuid_New :: "deps \<Rightarrow> world \<Rightarrow> string \<times> world" where
  "uuid_New d world = (uuid_New_String d (uuids world), world\<lparr>uuids := Suc (uuids world)\<rparr>)"

text \<open>
  A handler is called with the writer, the request and the process state; it returns the
  writer and the state as it left them, and the panic it raised, if it did not return.
\<close>

type_synonym handler = "writer \<Rightarrow> request \<Rightarrow> world \<Rightarrow> panic option \<times> writer \<times> world"

subsection \<open>CorrelationID\<close>

definition CorrelationID :: "deps \<Rightarrow> handler \<Rightarrow> handler" where
  "CorrelationID d next w r world =
     (let correlationID = Header_Get d (Header r) (CorrelationIDHeader world);
          (correlationID, world) =
             (if correlationID = '''' then uuid_New d world else (correlationID, world));
          ctx = WithValue (Context r) CorrelationIDKey (Any_string correlationID);
          r = r\<lparr>Context := ctx\<rparr>;
          w = rw_Header_update w (Header_Set d (rw_Header w) (CorrelationIDHeader world) correlationID)
      in next w r world)"

subsection \<open>RequestLogger\<close>

text \<open>
  \<^verbatim>\<open>logger.Info(msg, attrs...)\<close> hands one record to the logger. A nil \<^verbatim>\<open>*slog.Logger\<close>
  is dereferenced by the call, which panics.
\<close>

definition logger_Info ::
  "logger option \<Rightarrow> string \<Rightarrow> (string \<times> attr_value) list \<Rightarrow> world \<Rightarrow> panic option \<times> world" where
  "logger_Info lg msg attrs world =
     (case lg of
        None \<Rightarrow> (Some NilPointerDereference, world)
      | Some l \<Rightarrow>
          (None, world\<lparr>log_output := log_output world @
                   [\<lparr>log_logger = l, log_msg = msg, log_attrs = attrs\<rparr>]\<rparr>))"

text \<open>
  The call of \<^verbatim>\<open>logger.Info\<close> is the statement after \<^verbatim>\<open>next.ServeHTTP(ww, r)\<close>, with no
  \<^verbatim>\<open>defer\<close>: a panic of the downstream chain leaves the function before it.
\<close>

definition RequestLogger :: "logger option \<Rightarrow> handler \<Rightarrow> handler" where
  "RequestLogger logger next w r world =
     (let start = clock world;
          ww = NewWrapResponseWriter w (ProtoMajor r)
      in case next ww r world of
           (Some p, ww, world) \<Rightarrow> (Some p, Unwrap ww, world)
         | (None, ww, world) \<Rightarrow>
             (let (p, world) = logger_Info logger ''request''
                    [(''method'', StringValue (Method r)),
                     (''path'', StringValue (URL_Path r)),
                     (''status'', IntValue (Status ww)),
                     (''bytes'', IntValue (BytesWritten ww)),
                     (''remote'', StringValue (RemoteAddr r)),
                     (''correlation_id'', StringValue (GetCorrID (Context r))),
                     (''duration'', DurationValue (clock world - start))] world
              in (p, Unwrap ww, world)))"

subsection \<open>Handlers given by the calls they make\<close>

text \<open>
  A handler that drives its writer through \<^verbatim>\<open>Header().Set\<close>, \<^verbatim>\<open>WriteHeader\<close> and
  \<^verbatim>\<open>Write\<close>, in the given order, and changes the process state by \<^verbatim>\<open>f\<close>.
\<close>

datatype rw_call = Call_Header_Set string string | Call_WriteHeader int | Call_Write string

fun do_call :: "deps \<Rightarrow> writer \<Rightarrow> rw_call \<Rightarrow> panic option \<times> writer" where
  "do_call d w (Call_Header_Set key v) =
     (None, rw_Header_update w (Header_Set d (rw_Header w) key v))"
| "do_call d w (Call_WriteHeader c) = WriteHeader w c"
| "do_call d w (Call_Write buf) = (None, fst (Write d w buf))"

text \<open>The calls in order, up to the first that panics.\<close>

fun do_calls :: "deps \<Rightarrow> writer \<Rightarrow> rw_call list \<Rightarrow> panic option \<times> writer" where
  "do_calls d w [] = (None, w)"
| "do_calls d w (c # cs) =
     (case do_call d w c of
        (Some p, w') \<Rightarrow> (Some p, w')
      | (None, w') \<Rightarrow> do_calls d w' cs)"

definition script_handler :: "deps \<Rightarrow> rw_call list \<Rightarrow> (world \<Rightarrow> world) \<Rightarrow> handler" where
  "script_handler d calls f w r world =
     (case do_calls d w calls of (p, w') \<Rightarrow> (p, w', f world))"


text \<open>The status code that the calls set before the first \<^verbatim>\<open>Write\<close>, if they set one.\<close>

fun explicit_status :: "rw_call list \<Rightarrow> int option" where
  "explicit_status [] = None"
| "explicit_status (Call_Header_Set key v # cs) = explicit_status cs"
| "explicit_status (Call_WriteHeader c # cs) = Some c"
| "explicit_status (Call_Write buf # cs) = None"


text \<open>The code a fresh wrapper holds after the calls, \<^verbatim>\<open>code\<close> being what it held before.\<close>

fun recorded :: "int \<Rightarrow> rw_call list \<Rightarrow> int" where
  "recorded code [] = code"
| "recorded code (Call_Header_Set key v # cs) = recorded code cs"
| "recorded code (Call_WriteHeader c # cs) = c"
| "recorded code (Call_Write buf # cs) = StatusOK"

text \<open>The attributes of the record of \<^verbatim>\<open>RequestLogger\<close>, named for the proofs.\<close>

definition request_attrs :: "request \<Rightarrow> writer \<Rightarrow> int \<Rightarrow> (string \<times> attr_value) list" where
  "request_attrs r ww elapsed =
     [(''method'', StringValue (Method r)),
      (''path'', StringValue (URL_Path r)),
      (''status'', IntValue (Status ww)),
      (''bytes'', IntValue (BytesWritten ww)),
      (''remote'', StringValue (RemoteAddr r)),
      (''correlation_id'', StringValue (GetCorrID (Context r))),
      (''duration'', DurationValue elapsed)]"

subsection \<open>Concrete inputs\<close>

text \<open>
  Libraries for the examples: header names are taken in their canonical form, every
  UUID has the same text, the default logger is logger 0, the bottom writer takes every
  buffer whole.
\<close>

definition example_deps :: deps where
  "example_deps =
     \<lparr>CanonicalMIMEHeaderKey = (\<lambda>key. key),
      uuid_New_String = (\<lambda>n. ''6ba7b810-9dad-41d1-80b4-00c04fd430c8''),
      slog_Default = Slog 0,
      sink_Write = (\<lambda>rc buf. length buf)\<rparr>"



definition example_request :: request where
  "example_request =
     \<lparr>Method = ''GET'', URL_Path = ''/test'', RemoteAddr = ''192.0.2.1:1234'', ProtoMajor = 1,
      Header = Map.empty, Context = Background\<rparr>"

subsection \<open>Config, Server and NewServer\<close>

record Config =
  Addr :: string
  Logger :: "logger option"

text \<open>
  The chi router as far as \<^verbatim>\<open>NewServer\<close> drives it: the middlewares given to \<^verbatim>\<open>Use\<close>, in
  order, and the routes. The middlewares of chi itself are parameters.
\<close>

record Mux =
  middlewares :: "(handler \<Rightarrow> handler) list"
  routes :: "(string \<times> string \<times> handler) list"

record chi_middleware =
  RequestID :: "handler \<Rightarrow> handler"
  RealIP :: "handler \<Rightarrow> handler"
  Recoverer :: "handler \<Rightarrow> handler"

definition NewRouter :: Mux where
  "NewRouter = \<lparr>middlewares = [], routes = []\<rparr>"

definition Use :: "Mux \<Rightarrow> (handler \<Rightarrow> handler) \<Rightarrow> Mux" where
  "Use r m = r\<lparr>middlewares := middlewares r @ [m]\<rparr>"

record http_Server =
  Server_Addr :: string
  Server_Handler :: Mux

record Server =
  httpServer :: http_Server
  logger :: "logger option"

definition NewServer :: "deps \<Rightarrow> chi_middleware \<Rightarrow> Config \<Rightarrow> (Mux \<Rightarrow> Mux) \<Rightarrow> Server" where
  "NewServer d chi cfg configureRoutes =
     (let cfg = (if Logger cfg = None then cfg\<lparr>Logger := Some (slog_Default d)\<rparr> else cfg);
          r = NewRouter;
          r = Use r (RequestID chi);
          r = Use r (CorrelationID d);
          r = Use r (RealIP chi);
          r = Use r (Recoverer chi);
          r = Use r (RequestLogger (Logger cfg));
          r = configureRoutes r;
          srv = \<lparr>Server_Addr = Addr cfg, Server_Handler = r\<rparr>
      in \<lparr>httpServer = srv, logger = Logger cfg\<rparr>)"

subsection \<open>Errors and channels\<close>

text \<open>
  \<^verbatim>\<open>ErrServerClosed\<close> is \<^verbatim>\<open>http.ErrServerClosed\<close>; \<^verbatim>\<open>Err\<close> is any other error of a library,
  with its text; \<^verbatim>\<open>Wrapped prefix err\<close> is \<^verbatim>\<open>fmt.Errorf(prefix + "%w", err)\<close>.
\<close>

datatype error = ErrServerClosed | Err string | Wrapped string error

fun Error :: "error \<Rightarrow> string" where
  "Error ErrServerClosed = ''http: Server closed''"
| "Error (Err text) = text"
| "Error (Wrapped prefix err) = prefix @ Error err"

fun errors_Unwrap :: "error \<Rightarrow> error option" where
  "errors_Unwrap (Wrapped prefix err) = Some err"
| "errors_Unwrap err = None"

definition Errorf_w :: "string \<Rightarrow> error \<Rightarrow> error" where
  "Errorf_w prefix err = Wrapped prefix err"

text \<open>
  A buffered channel: a send proceeds while the buffer has room, a receive while it holds
  a value. \<^verbatim>\<open>None\<close> is an operation that cannot proceed.
\<close>

record 'a chan =
  chan_cap :: nat
  chan_buf :: "'a list"

definition make_chan :: "nat \<Rightarrow> 'a chan" where
  "make_chan n = \<lparr>chan_cap = n, chan_buf = []\<rparr>"

definition chan_send :: "'a chan \<Rightarrow> 'a \<Rightarrow> 'a chan option" where
  "chan_send ch v =
     (if length (chan_buf ch) < chan_cap ch then Some (ch\<lparr>chan_buf := chan_buf ch @ [v]\<rparr>)
      else None)"

definition chan_recv :: "'a chan \<Rightarrow> ('a \<times> 'a chan) option" where
  "chan_recv ch =
     (case chan_buf ch of
        [] \<Rightarrow> None
      | v # vs \<Rightarrow> Some (v, ch\<lparr>chan_buf := vs\<rparr>))"

subsection \<open>Run\<close>

text \<open>
  \<^verbatim>\<open>Run\<close> is two goroutines: the caller, which waits in the \<^verbatim>\<open>select\<close>, and the task
  started by the \<^verbatim>\<open>go\<close> statement. Each has a program point. The state of an invocation
  holds both points, the channel \<^verbatim>\<open>errCh\<close>, whether \<^verbatim>\<open>ctx.Done()\<close> is closed, the timeouts
  of the calls of \<^verbatim>\<open>Shutdown\<close> made so far, and the process state with the log output.
  The caller is in the \<^verbatim>\<open>select\<close>, in the call of \<^verbatim>\<open>Shutdown\<close>, has returned a result, or
  has panicked; the task is before its log call, in \<^verbatim>\<open>ListenAndServe\<close>, at the send of an
  error, done, or has panicked.
\<close>

datatype main_pc = Main_select | Main_Shutdown | Main_returned "error option" | Main_panicked

datatype task_pc = Task_start | Task_ListenAndServe | Task_send error | Task_done | Task_panicked

record run_state =
  server :: Server
  main_pc :: main_pc
  task_pc :: task_pc
  errCh :: "error chan"
  ctx_Done :: bool
  Shutdown_calls :: "int list"
  run_world :: world

definition Second :: int where
  "Second = 1000000000"

text \<open>
  The state after \<^verbatim>\<open>errCh := make(chan error, 1)\<close> and the \<^verbatim>\<open>go\<close> statement, for a context
  that is already cancelled (\<^verbatim>\<open>done\<close>) or not.
\<close>

definition Run_start :: "Server \<Rightarrow> bool \<Rightarrow> world \<Rightarrow> run_state" where
  "Run_start s done world =
     \<lparr>server = s, main_pc = Main_select, task_pc = Task_start, errCh = make_chan 1,
      ctx_Done = done, Shutdown_calls = [], run_world = world\<rparr>"

text \<open>
  What can happen next: the context is cancelled; the task runs its next statement (the
  log call, or the send); \<^verbatim>\<open>ListenAndServe\<close> returns; the \<^verbatim>\<open>select\<close> commits to one of
  its two cases, which Go chooses among those that can proceed; \<^verbatim>\<open>Shutdown\<close> returns.
\<close>

datatype select_case = Case_ctx_Done | Case_errCh

datatype event =
    Cancel
  | Task_runs
  | ListenAndServe_returns "error option"
  | Select select_case
  | Shutdown_returns "error option"

text \<open>
  The task, \<^verbatim>\<open>go func() { ... }()\<close>: it logs \<^verbatim>\<open>server starting\<close> and calls
  \<^verbatim>\<open>ListenAndServe\<close>; when that returns an error that is not nil and not
  \<^verbatim>\<open>http.ErrServerClosed\<close>, it sends the error on \<^verbatim>\<open>errCh\<close>.
\<close>

definition task_runs :: "run_state \<Rightarrow> run_state option" where
  "task_runs st =
     (case task_pc st of
        Task_start \<Rightarrow>
          (case logger_Info (logger (server st)) ''server starting''
                  [(''addr'', StringValue (Server_Addr (httpServer (server st))))] (run_world st) of
             (Some p, world) \<Rightarrow> Some (st\<lparr>task_pc := Task_panicked, run_world := world\<rparr>)
           | (None, world) \<Rightarrow> Some (st\<lparr>task_pc := Task_ListenAndServe, run_world := world\<rparr>))
      | Task_send err \<Rightarrow>
          (case chan_send (errCh st) err of
             None \<Rightarrow> None
           | Some ch \<Rightarrow> Some (st\<lparr>errCh := ch, task_pc := Task_done\<rparr>))
      | _ \<Rightarrow> None)"

definition listen_returns :: "error option \<Rightarrow> run_state \<Rightarrow> run_state option" where
  "listen_returns res st =
     (if task_pc st = Task_ListenAndServe then
        (case res of
           Some err \<Rightarrow>
             (if err \<noteq> ErrServerClosed then Some (st\<lparr>task_pc := Task_send err\<rparr>)
              else Some (st\<lparr>task_pc := Task_done\<rparr>))
         | None \<Rightarrow> Some (st\<lparr>task_pc := Task_done\<rparr>))
      else None)"

text \<open>
  The caller, \<^verbatim>\<open>case <-ctx.Done()\<close>: it logs, calls \<^verbatim>\<open>Shutdown\<close> with a context that times
  out after \<^verbatim>\<open>5*time.Second\<close>, and when the call returns, returns the error wrapped, or
  logs and returns nil. \<^verbatim>\<open>case err := <-errCh\<close>: it returns the error wrapped.
\<close>

definition select_ctx_Done :: "run_state \<Rightarrow> run_state option" where
  "select_ctx_Done st =
     (if main_pc st = Main_select \<and> ctx_Done st then
        (case logger_Info (logger (server st)) ''shutdown signal received'' [] (run_world st) of
           (Some p, world) \<Rightarrow> Some (st\<lparr>main_pc := Main_panicked, run_world := world\<rparr>)
         | (None, world) \<Rightarrow>
             Some (st\<lparr>main_pc := Main_Shutdown,
                      Shutdown_calls := Shutdown_calls st @ [5 * Second],
                      run_world := world\<rparr>))
      else None)"

definition select_errCh :: "run_state \<Rightarrow> run_state option" where
  "select_errCh st =
     (if main_pc st = Main_select then
        (case chan_recv (errCh st) of
           None \<Rightarrow> None
         | Some (err, ch) \<Rightarrow>
             Some (st\<lparr>errCh := ch,
                      main_pc := Main_returned (Some (Errorf_w ''server error: '' err))\<rparr>))
      else None)"

definition shutdown_returns :: "error option \<Rightarrow> run_state \<Rightarrow> run_state option" where
  "shutdown_returns res st =
     (if main_pc st = Main_Shutdown then
        (case res of
           Some err \<Rightarrow> Some (st\<lparr>main_pc := Main_returned (Some (Errorf_w ''shutdown: '' err))\<rparr>)
         | None \<Rightarrow>
             (case logger_Info (logger (server st)) ''server gracefully stopped'' [] (run_world st) of
                (Some p, world) \<Rightarrow> Some (st\<lparr>main_pc := Main_panicked, run_world := world\<rparr>)
              | (None, world) \<Rightarrow> Some (st\<lparr>main_pc := Main_returned None, run_world := world\<rparr>)))
      else None)"

fun step :: "event \<Rightarrow> run_state \<Rightarrow> run_state option" where
  "step Cancel st = Some (st\<lparr>ctx_Done := True\<rparr>)"
| "step Task_runs st = task_runs st"
| "step (ListenAndServe_returns res) st = listen_returns res st"
| "step (Select Case_ctx_Done) st = select_ctx_Done st"
| "step (Select Case_errCh) st = select_errCh st"
| "step (Shutdown_returns res) st = shutdown_returns res st"

text \<open>A run of events; \<^verbatim>\<open>None\<close> when one of them cannot happen where it stands.\<close>

fun exec :: "event list \<Rightarrow> run_state \<Rightarrow> run_state option" where
  "exec [] st = Some st"
| "exec (e # es) st = (case step e st of None \<Rightarrow> None | Some st' \<Rightarrow> exec es st')"

text \<open>
  What \<^verbatim>\<open>Run\<close> has returned after a run of events: \<^verbatim>\<open>None\<close> when it has not returned,
  \<^verbatim>\<open>Some None\<close> for nil, \<^verbatim>\<open>Some (Some err)\<close> for an error.
\<close>

definition Run :: "Server \<Rightarrow> bool \<Rightarrow> world \<Rightarrow> event list \<Rightarrow> error option option" where
  "Run s done world es =
     (case exec es (Run_start s done world) of
        None \<Rightarrow> None
      | Some st \<Rightarrow> (case main_pc st of Main_returned r \<Rightarrow> Some r | _ \<Rightarrow> None))"

definition example_chi :: chi_middleware where
  "example_chi = \<lparr>RequestID = (\<lambda>next. next), RealIP = (\<lambda>next. next), Recoverer = (\<lambda>next. next)\<rparr>"

definition example_server :: Server where
  "example_server =
     NewServer example_deps example_chi \<lparr>Addr = ''invalid:address:format'', Logger = None\<rparr> (\<lambda>r. r)"

subsection \<open>Run: what a run did\<close>

text \<open>
  The cases on which the \<^verbatim>\<open>select\<close> committed during a run, the results with which
  \<^verbatim>\<open>Shutdown\<close> returned during it, and the result of \<^verbatim>\<open>Run\<close> for a result of
  \<^verbatim>\<open>Shutdown\<close>.
\<close>

fun selects :: "event list \<Rightarrow> select_case list" where
  "selects [] = []"
| "selects (Select c # es) = c # selects es"
| "selects (e # es) = selects es"

fun shutdown_results :: "event list \<Rightarrow> error option list" where
  "shutdown_results [] = []"
| "shutdown_results (Shutdown_returns res # es) = res # shutdown_results es"
| "shutdown_results (e # es) = shutdown_results es"

definition shutdown_outcome :: "error option \<Rightarrow> error option" where
  "shutdown_outcome res = (case res of None \<Rightarrow> None | Some err \<Rightarrow> Some (Errorf_w ''shutdown: '' err))"

text \<open>
  The invariants of the proofs: what holds of the caller, of the task and the channel, and
  of both, after a run \<^verbatim>\<open>es\<close> from the start of \<^verbatim>\<open>Run\<close> on server \<^verbatim>\<open>s\<close>.
\<close>

definition main_inv :: "Server \<Rightarrow> event list \<Rightarrow> run_state \<Rightarrow> bool" where
  "main_inv s es st =
     ((main_pc st = Main_select \<longrightarrow>
            Shutdown_calls st = [] \<and> selects es = [] \<and> shutdown_results es = [])
      \<and> (main_pc st = Main_Shutdown \<longrightarrow>
            Shutdown_calls st = [5 * Second] \<and> selects es = [Case_ctx_Done] \<and> ctx_Done st
            \<and> shutdown_results es = [])
      \<and> (\<forall>r. main_pc st = Main_returned r \<longrightarrow>
            (Shutdown_calls st = [] \<and> selects es = [Case_errCh] \<and> shutdown_results es = []
               \<and> (\<exists>e. r = Some (Errorf_w ''server error: '' e) \<and> e \<noteq> ErrServerClosed
                      \<and> ListenAndServe_returns (Some e) \<in> set es))
            \<or> (Shutdown_calls st = [5 * Second] \<and> selects es = [Case_ctx_Done] \<and> ctx_Done st
               \<and> (\<exists>res. shutdown_results es = [res] \<and> r = shutdown_outcome res)))
      \<and> (main_pc st = Main_panicked \<longrightarrow>
            logger s = None \<and> ctx_Done st \<and> selects es = [Case_ctx_Done]))"

definition task_inv :: "Server \<Rightarrow> event list \<Rightarrow> run_state \<Rightarrow> bool" where
  "task_inv s es st =
     (chan_cap (errCh st) = 1
      \<and> (task_pc st \<noteq> Task_done \<longrightarrow> chan_buf (errCh st) = [])
      \<and> length (chan_buf (errCh st)) \<le> 1
      \<and> (\<forall>e \<in> set (chan_buf (errCh st)).
            e \<noteq> ErrServerClosed \<and> ListenAndServe_returns (Some e) \<in> set es)
      \<and> (\<forall>e. task_pc st = Task_send e \<longrightarrow>
            e \<noteq> ErrServerClosed \<and> ListenAndServe_returns (Some e) \<in> set es)
      \<and> (task_pc st = Task_panicked \<longrightarrow> logger s = None))"

definition run_inv :: "Server \<Rightarrow> bool \<Rightarrow> event list \<Rightarrow> run_state \<Rightarrow> bool" where
  "run_inv s done es st =
     (server st = s \<and> ctx_Done st = (done \<or> Cancel \<in> set es)
      \<and> main_inv s es st \<and> task_inv s es st)"

definition bind_error :: error where
  "bind_error = Err ''listen tcp: address invalid:address:format: too many colons in address''"

section \<open>Theorems\<close>

subsection \<open>GetCorrID\<close>

lemma Value_unbound: "key \<notin> bound_keys ctx \<Longrightarrow> Value ctx key = Any_nil"
  by (induction ctx) auto

lemma GetCorrID_WithValue:
  "GetCorrID (WithValue ctx k v) =
     (if k = CorrelationIDKey then fst (assert_string v) else GetCorrID ctx)"
  by (cases v) (simp_all add: GetCorrID_def)

lemma GetCorrID_bind [simp]: "GetCorrID (WithValue ctx CorrelationIDKey (Any_string s)) = s"
  by (simp add: GetCorrID_def)

lemma GetCorrID_unbound: "CorrelationIDKey \<notin> bound_keys ctx \<Longrightarrow> GetCorrID ctx = ''''"
  by (simp add: GetCorrID_def Value_unbound)

text \<open>
  C6. \<^verbatim>\<open>GetCorrID\<close> returns a string for every context: the stored string when the nearest
  binding of the correlation key holds a string, and the empty string both when no
  binding of the key exists along the chain and when the bound value is not a string
  (an integer, a boolean, the nil interface). Bindings of other keys do not change the
  answer. The function has no failing branch: the type assertion is the comma-ok form.
\<close>

theorem GetCorrID_total:
  "(CorrelationIDKey \<notin> bound_keys ctx \<longrightarrow> GetCorrID ctx = '''')
   \<and> GetCorrID (WithValue ctx CorrelationIDKey (Any_string s)) = s
   \<and> ((\<forall>s'. v \<noteq> Any_string s') \<longrightarrow> GetCorrID (WithValue ctx CorrelationIDKey v) = '''')
   \<and> GetCorrID (WithValue ctx (OtherKey k) v) = GetCorrID ctx"
proof (intro conjI impI)
  assume "CorrelationIDKey \<notin> bound_keys ctx"
  then show "GetCorrID ctx = ''''"
    by (rule GetCorrID_unbound)
next
  show "GetCorrID (WithValue ctx CorrelationIDKey (Any_string s)) = s"
    by (simp add: GetCorrID_WithValue)
next
  assume "\<forall>s'. v \<noteq> Any_string s'"
  then show "GetCorrID (WithValue ctx CorrelationIDKey v) = ''''"
    by (cases v) (simp_all add: GetCorrID_WithValue)
next
  show "GetCorrID (WithValue ctx (OtherKey k) v) = GetCorrID ctx"
    by (simp add: GetCorrID_WithValue)
qed

theorem GetCorrID_total_witness:
  "(CorrelationIDKey \<notin> bound_keys (WithValue Background (OtherKey ''user'') (Any_string ''bob''))
      \<and> GetCorrID (WithValue Background (OtherKey ''user'') (Any_string ''bob'')) = '''')
   \<and> GetCorrID (WithValue Background CorrelationIDKey (Any_string ''test-id-789'')) = ''test-id-789''
   \<and> ((\<forall>s'. Any_int 12345 \<noteq> Any_string s')
      \<and> GetCorrID (WithValue Background CorrelationIDKey (Any_int 12345)) = '''')"
  using GetCorrID_total [of "WithValue Background (OtherKey ''user'') (Any_string ''bob'')"]
    GetCorrID_total [of Background "''test-id-789''" "Any_int 12345"]
  by simp

subsection \<open>CorrelationID\<close>

lemma rw_Header_update_get [simp]: "rw_Header (rw_Header_update w h) = h"
  by (induction w) auto

lemma Header_Get_Set [simp]: "Header_Get d (Header_Set d h key v) key = v"
  by (simp add: Header_Get_def Header_Set_def)

lemma Header_Get_other_key:
  "CanonicalMIMEHeaderKey d key \<noteq> k \<Longrightarrow> Header_Get d (h(k := vs)) key = Header_Get d h key"
  by (simp add: Header_Get_def)

text \<open>The middleware ends in the call of \<^verbatim>\<open>next\<close>; these are the arguments of that call.\<close>

lemma CorrelationID_unfold:
  "CorrelationID d next w r world =
    (if Header_Get d (Header r) (CorrelationIDHeader world) = '''' then
       next (rw_Header_update w (Header_Set d (rw_Header w) (CorrelationIDHeader world)
                (uuid_New_String d (uuids world))))
            (r\<lparr>Context := WithValue (Context r) CorrelationIDKey
                (Any_string (uuid_New_String d (uuids world)))\<rparr>)
            (world\<lparr>uuids := Suc (uuids world)\<rparr>)
     else
       next (rw_Header_update w (Header_Set d (rw_Header w) (CorrelationIDHeader world)
                (Header_Get d (Header r) (CorrelationIDHeader world))))
            (r\<lparr>Context := WithValue (Context r) CorrelationIDKey
                (Any_string (Header_Get d (Header r) (CorrelationIDHeader world)))\<rparr>)
            world)"
  by (simp add: CorrelationID_def uuid_New_def Let_def)

text \<open>
  C1. For every request, writer and process state, the middleware calls \<^verbatim>\<open>next\<close> once,
  as its last action, with a writer \<^verbatim>\<open>w'\<close>, a request \<^verbatim>\<open>r'\<close> and a state \<^verbatim>\<open>world'\<close>
  such that: what \<^verbatim>\<open>GetCorrID\<close> reads from the context of \<^verbatim>\<open>r'\<close> equals what
  \<^verbatim>\<open>Header.Get\<close> reads from the response header under the configured name, and is not
  empty; when the request's header under that name reads non-empty, that value is the
  inbound one, verbatim, and no UUID is drawn (the state is unchanged); when it reads
  empty (absent, or empty), the value is the text of one new UUID, and exactly one UUID
  has been drawn. The value under a header is what \<^verbatim>\<open>Header.Get\<close> returns, the first
  one. The text of a new UUID is not empty: that is \<^verbatim>\<open>uuid.UUID.String\<close>, a hypothesis
  here.
\<close>

theorem CorrelationID_propagates_or_generates:
  assumes gen: "uuid_New_String d (uuids world) \<noteq> ''''"
  shows "\<exists>w' r' world'.
      (\<forall>next. CorrelationID d next w r world = next w' r' world')
    \<and> GetCorrID (Context r') = Header_Get d (rw_Header w') (CorrelationIDHeader world)
    \<and> GetCorrID (Context r') \<noteq> ''''
    \<and> (Header_Get d (Header r) (CorrelationIDHeader world) \<noteq> '''' \<longrightarrow>
         GetCorrID (Context r') = Header_Get d (Header r) (CorrelationIDHeader world)
         \<and> world' = world)
    \<and> (Header_Get d (Header r) (CorrelationIDHeader world) = '''' \<longrightarrow>
         GetCorrID (Context r') = uuid_New_String d (uuids world)
         \<and> world' = world\<lparr>uuids := Suc (uuids world)\<rparr>)"
proof (cases "Header_Get d (Header r) (CorrelationIDHeader world) = ''''")
  case True
  let ?cid = "uuid_New_String d (uuids world)"
  let ?w = "rw_Header_update w (Header_Set d (rw_Header w) (CorrelationIDHeader world) ?cid)"
  let ?r = "r\<lparr>Context := WithValue (Context r) CorrelationIDKey (Any_string ?cid)\<rparr>"
  have "\<forall>next. CorrelationID d next w r world = next ?w ?r (world\<lparr>uuids := Suc (uuids world)\<rparr>)"
    using True by (simp add: CorrelationID_unfold)
  moreover have "GetCorrID (Context ?r) = ?cid" by simp
  moreover have "Header_Get d (rw_Header ?w) (CorrelationIDHeader world) = ?cid" by simp
  ultimately show ?thesis using True gen by metis
next
  case False
  let ?cid = "Header_Get d (Header r) (CorrelationIDHeader world)"
  let ?w = "rw_Header_update w (Header_Set d (rw_Header w) (CorrelationIDHeader world) ?cid)"
  let ?r = "r\<lparr>Context := WithValue (Context r) CorrelationIDKey (Any_string ?cid)\<rparr>"
  have "\<forall>next. CorrelationID d next w r world = next ?w ?r world"
    using False by (simp add: CorrelationID_unfold)
  moreover have "GetCorrID (Context ?r) = ?cid" by simp
  moreover have "Header_Get d (rw_Header ?w) (CorrelationIDHeader world) = ?cid" by simp
  ultimately show ?thesis using False by metis
qed

theorem CorrelationID_propagates_or_generates_witness:
  "uuid_New_String example_deps (uuids initial_world) \<noteq> ''''
   \<and> (\<exists>w' r' world'.
        (\<forall>next. CorrelationID example_deps next NewRecorder
            (example_request\<lparr>Header := [''X-Correlation-ID'' \<mapsto> [''test-correlation-id-123'']]\<rparr>)
            initial_world = next w' r' world')
      \<and> GetCorrID (Context r') = ''test-correlation-id-123''
      \<and> Header_Get example_deps (rw_Header w') ''X-Correlation-ID'' = ''test-correlation-id-123''
      \<and> world' = initial_world)
   \<and> (\<exists>w' r' world'.
        (\<forall>next. CorrelationID example_deps next NewRecorder example_request initial_world
                  = next w' r' world')
      \<and> GetCorrID (Context r') = ''6ba7b810-9dad-41d1-80b4-00c04fd430c8''
      \<and> Header_Get example_deps (rw_Header w') ''X-Correlation-ID''
           = ''6ba7b810-9dad-41d1-80b4-00c04fd430c8''
      \<and> uuids world' = 1)"
proof -
  let ?r = "example_request\<lparr>Header := [''X-Correlation-ID'' \<mapsto> [''test-correlation-id-123'']]\<rparr>"
  have gen: "uuid_New_String example_deps (uuids initial_world) \<noteq> ''''"
    by (simp add: example_deps_def)
  have hdr: "CorrelationIDHeader initial_world = ''X-Correlation-ID''"
    by (simp add: initial_world_def)
  have get: "Header_Get example_deps (Header ?r) ''X-Correlation-ID'' = ''test-correlation-id-123''"
    by (simp add: Header_Get_def example_deps_def)
  have get0: "Header_Get example_deps (Header example_request) ''X-Correlation-ID'' = ''''"
    by (simp add: Header_Get_def example_request_def)
  have new: "uuid_New_String example_deps (uuids initial_world) = ''6ba7b810-9dad-41d1-80b4-00c04fd430c8''"
    by (simp add: example_deps_def)
  obtain w' r' world' where
    call: "\<forall>next. CorrelationID example_deps next NewRecorder ?r initial_world = next w' r' world'"
    and same: "GetCorrID (Context r')
                 = Header_Get example_deps (rw_Header w') (CorrelationIDHeader initial_world)"
    and adopt: "Header_Get example_deps (Header ?r) (CorrelationIDHeader initial_world) \<noteq> '''' \<longrightarrow>
         GetCorrID (Context r')
           = Header_Get example_deps (Header ?r) (CorrelationIDHeader initial_world)
         \<and> world' = initial_world"
    using CorrelationID_propagates_or_generates [OF gen, of NewRecorder ?r] by blast
  have "GetCorrID (Context r') = ''test-correlation-id-123''" and "world' = initial_world"
    using adopt unfolding hdr get by simp_all
  moreover from this
  have "Header_Get example_deps (rw_Header w') ''X-Correlation-ID'' = ''test-correlation-id-123''"
    using same unfolding hdr by simp
  ultimately have first: "\<exists>w' r' world'.
        (\<forall>next. CorrelationID example_deps next NewRecorder ?r initial_world = next w' r' world')
      \<and> GetCorrID (Context r') = ''test-correlation-id-123''
      \<and> Header_Get example_deps (rw_Header w') ''X-Correlation-ID'' = ''test-correlation-id-123''
      \<and> world' = initial_world"
    using call by blast
  obtain w2 r2 world2 where
    call2: "\<forall>next. CorrelationID example_deps next NewRecorder example_request initial_world
               = next w2 r2 world2"
    and same2: "GetCorrID (Context r2)
                 = Header_Get example_deps (rw_Header w2) (CorrelationIDHeader initial_world)"
    and fresh: "Header_Get example_deps (Header example_request) (CorrelationIDHeader initial_world) = '''' \<longrightarrow>
         GetCorrID (Context r2) = uuid_New_String example_deps (uuids initial_world)
         \<and> world2 = initial_world\<lparr>uuids := Suc (uuids initial_world)\<rparr>"
    using CorrelationID_propagates_or_generates [OF gen, of NewRecorder example_request] by blast
  have c2: "GetCorrID (Context r2) = ''6ba7b810-9dad-41d1-80b4-00c04fd430c8''"
    and u2: "uuids world2 = 1"
    using fresh unfolding hdr get0 new by (simp_all add: initial_world_def)
  moreover from c2
  have "Header_Get example_deps (rw_Header w2) ''X-Correlation-ID''
           = ''6ba7b810-9dad-41d1-80b4-00c04fd430c8''"
    using same2 unfolding hdr by simp
  ultimately have second: "\<exists>w' r' world'.
        (\<forall>next. CorrelationID example_deps next NewRecorder example_request initial_world
                  = next w' r' world')
      \<and> GetCorrID (Context r') = ''6ba7b810-9dad-41d1-80b4-00c04fd430c8''
      \<and> Header_Get example_deps (rw_Header w') ''X-Correlation-ID''
           = ''6ba7b810-9dad-41d1-80b4-00c04fd430c8''
      \<and> uuids world' = 1"
    using call2 by blast
  from gen first second show ?thesis by blast
qed

text \<open>
  C7. With the header-name variable set to a name whose canonical key is not that of
  \<^verbatim>\<open>X-Correlation-ID\<close>, the middleware reads the inbound value from the configured name
  and writes the outbound value under the configured name only: whatever the request holds
  under the default name (\<^verbatim>\<open>vs\<close>: nothing, or any values), the call of \<^verbatim>\<open>next\<close> gets the
  same writer, context and state; a non-empty inbound value under the configured name is
  the one adopted; the response header holds exactly the adopted value under the
  configured name, and every other key of it, the default one included, is as it was.
\<close>

theorem CorrelationID_configured_header_only:
  assumes other: "CanonicalMIMEHeaderKey d (CorrelationIDHeader world)
                    \<noteq> CanonicalMIMEHeaderKey d ''X-Correlation-ID''"
  shows "\<exists>w' ctx' world'.
      (\<forall>next vs. CorrelationID d next w
           (r\<lparr>Header := (Header r)(CanonicalMIMEHeaderKey d ''X-Correlation-ID'' := vs)\<rparr>) world
         = next w' (r\<lparr>Header := (Header r)(CanonicalMIMEHeaderKey d ''X-Correlation-ID'' := vs),
                      Context := ctx'\<rparr>) world')
    \<and> (Header_Get d (Header r) (CorrelationIDHeader world) \<noteq> '''' \<longrightarrow>
          GetCorrID ctx' = Header_Get d (Header r) (CorrelationIDHeader world))
    \<and> rw_Header w' (CanonicalMIMEHeaderKey d (CorrelationIDHeader world)) = Some [GetCorrID ctx']
    \<and> (\<forall>k. k \<noteq> CanonicalMIMEHeaderKey d (CorrelationIDHeader world) \<longrightarrow>
          rw_Header w' k = rw_Header w k)"
proof -
  let ?hdr = "CorrelationIDHeader world"
  let ?def = "CanonicalMIMEHeaderKey d ''X-Correlation-ID''"
  have get: "Header_Get d ((Header r)(?def := vs)) ?hdr = Header_Get d (Header r) ?hdr" for vs
    using other by (simp add: Header_Get_other_key)
  show ?thesis
  proof (cases "Header_Get d (Header r) ?hdr = ''''")
    case True
    let ?cid = "uuid_New_String d (uuids world)"
    let ?w = "rw_Header_update w (Header_Set d (rw_Header w) ?hdr ?cid)"
    let ?ctx = "WithValue (Context r) CorrelationIDKey (Any_string ?cid)"
    have "\<forall>next vs. CorrelationID d next w (r\<lparr>Header := (Header r)(?def := vs)\<rparr>) world
            = next ?w (r\<lparr>Header := (Header r)(?def := vs), Context := ?ctx\<rparr>)
                 (world\<lparr>uuids := Suc (uuids world)\<rparr>)"
      using True by (simp add: CorrelationID_unfold get)
    moreover have "GetCorrID ?ctx = ?cid" by simp
    moreover have "rw_Header ?w (CanonicalMIMEHeaderKey d ?hdr) = Some [?cid]"
      by (simp add: Header_Set_def)
    moreover have "\<forall>k. k \<noteq> CanonicalMIMEHeaderKey d ?hdr \<longrightarrow> rw_Header ?w k = rw_Header w k"
      by (simp add: Header_Set_def)
    ultimately show ?thesis using True by metis
  next
    case False
    let ?cid = "Header_Get d (Header r) ?hdr"
    let ?w = "rw_Header_update w (Header_Set d (rw_Header w) ?hdr ?cid)"
    let ?ctx = "WithValue (Context r) CorrelationIDKey (Any_string ?cid)"
    have "\<forall>next vs. CorrelationID d next w (r\<lparr>Header := (Header r)(?def := vs)\<rparr>) world
            = next ?w (r\<lparr>Header := (Header r)(?def := vs), Context := ?ctx\<rparr>) world"
      using False by (simp add: CorrelationID_unfold get)
    moreover have "GetCorrID ?ctx = ?cid" by simp
    moreover have "rw_Header ?w (CanonicalMIMEHeaderKey d ?hdr) = Some [?cid]"
      by (simp add: Header_Set_def)
    moreover have "\<forall>k. k \<noteq> CanonicalMIMEHeaderKey d ?hdr \<longrightarrow> rw_Header ?w k = rw_Header w k"
      by (simp add: Header_Set_def)
    ultimately show ?thesis by metis
  qed
qed

theorem CorrelationID_configured_header_only_witness:
  "CanonicalMIMEHeaderKey example_deps
       (CorrelationIDHeader (initial_world\<lparr>CorrelationIDHeader := ''X-Custom-Request-ID''\<rparr>))
     \<noteq> CanonicalMIMEHeaderKey example_deps ''X-Correlation-ID''
   \<and> (\<exists>w' ctx' world'.
        (\<forall>next vs. CorrelationID example_deps next NewRecorder
            (example_request\<lparr>Header := [''X-Custom-Request-ID'' \<mapsto> [''custom-id-456'']]
                                           (''X-Correlation-ID'' := vs)\<rparr>)
            (initial_world\<lparr>CorrelationIDHeader := ''X-Custom-Request-ID''\<rparr>)
          = next w' (example_request\<lparr>Header := [''X-Custom-Request-ID'' \<mapsto> [''custom-id-456'']]
                                           (''X-Correlation-ID'' := vs), Context := ctx'\<rparr>) world')
      \<and> GetCorrID ctx' = ''custom-id-456''
      \<and> rw_Header w' ''X-Custom-Request-ID'' = Some [''custom-id-456'']
      \<and> rw_Header w' ''X-Correlation-ID'' = None)"
proof -
  let ?world = "initial_world\<lparr>CorrelationIDHeader := ''X-Custom-Request-ID''\<rparr>"
  let ?r = "example_request\<lparr>Header := [''X-Custom-Request-ID'' \<mapsto> [''custom-id-456'']]\<rparr>"
  have other: "CanonicalMIMEHeaderKey example_deps (CorrelationIDHeader ?world)
     \<noteq> CanonicalMIMEHeaderKey example_deps ''X-Correlation-ID''"
    by (simp add: example_deps_def)
  have get: "Header_Get example_deps (Header ?r) (CorrelationIDHeader ?world) = ''custom-id-456''"
    by (simp add: Header_Get_def example_deps_def)
  have canon: "CanonicalMIMEHeaderKey example_deps key = key" for key
    by (simp add: example_deps_def)
  obtain w' ctx' world' where
    call: "\<forall>next vs. CorrelationID example_deps next NewRecorder
           (?r\<lparr>Header := (Header ?r)(CanonicalMIMEHeaderKey example_deps ''X-Correlation-ID'' := vs)\<rparr>)
           ?world
         = next w' (?r\<lparr>Header := (Header ?r)
                        (CanonicalMIMEHeaderKey example_deps ''X-Correlation-ID'' := vs),
                      Context := ctx'\<rparr>) world'"
    and rd: "Header_Get example_deps (Header ?r) (CorrelationIDHeader ?world) \<noteq> '''' \<longrightarrow>
          GetCorrID ctx' = Header_Get example_deps (Header ?r) (CorrelationIDHeader ?world)"
    and wr: "rw_Header w' (CanonicalMIMEHeaderKey example_deps (CorrelationIDHeader ?world))
               = Some [GetCorrID ctx']"
    and excl: "\<forall>k. k \<noteq> CanonicalMIMEHeaderKey example_deps (CorrelationIDHeader ?world) \<longrightarrow>
          rw_Header w' k = rw_Header NewRecorder k"
    using CorrelationID_configured_header_only [OF other, of NewRecorder ?r] by blast
  have cid: "GetCorrID ctx' = ''custom-id-456''"
    using rd get by simp
  have k1: "rw_Header w' ''X-Correlation-ID'' = None"
    using excl by (simp add: canon NewRecorder_def)
  have k2: "rw_Header w' ''X-Custom-Request-ID'' = Some [''custom-id-456'']"
    using wr cid by (simp add: canon)
  have call': "\<forall>next vs. CorrelationID example_deps next NewRecorder
            (example_request\<lparr>Header := [''X-Custom-Request-ID'' \<mapsto> [''custom-id-456'']]
                                           (''X-Correlation-ID'' := vs)\<rparr>) ?world
          = next w' (example_request\<lparr>Header := [''X-Custom-Request-ID'' \<mapsto> [''custom-id-456'']]
                                           (''X-Correlation-ID'' := vs), Context := ctx'\<rparr>) world'"
    using call by (simp add: canon)
  show ?thesis
    using other cid k1 k2 call' by blast
qed

subsection \<open>RequestLogger\<close>

lemma RequestLogger_returns:
  assumes "next (NewWrapResponseWriter w (ProtoMajor r)) r world = (None, ww, world1)"
  shows "RequestLogger (Some l) next w r world =
     (None, Unwrap ww,
      world1\<lparr>log_output := log_output world1 @
        [\<lparr>log_logger = l, log_msg = ''request'',
          log_attrs = request_attrs r ww (clock world1 - clock world)\<rparr>]\<rparr>)"
  using assms by (simp add: RequestLogger_def logger_Info_def request_attrs_def Let_def)

text \<open>A panic of the downstream chain passes through, and nothing is logged.\<close>

lemma RequestLogger_panics:
  assumes "next (NewWrapResponseWriter w (ProtoMajor r)) r world = (Some p, ww, world1)"
  shows "RequestLogger lg next w r world = (Some p, Unwrap ww, world1)"
  using assms by (simp add: RequestLogger_def Let_def)

text \<open>With a nil logger the call of \<^verbatim>\<open>Info\<close> panics, after the chain has returned.\<close>

lemma RequestLogger_nil_logger:
  assumes "next (NewWrapResponseWriter w (ProtoMajor r)) r world = (None, ww, world1)"
  shows "RequestLogger None next w r world = (Some NilPointerDereference, Unwrap ww, world1)"
  using assms by (simp add: RequestLogger_def logger_Info_def Let_def)

text \<open>
  C4. For every request: when the downstream chain, called with the wrapped writer, has
  returned (in state \<^verbatim>\<open>world1\<close>), the interceptor, built with a logger, returns with the
  log output of \<^verbatim>\<open>world1\<close> followed by exactly one record: whatever the chain logged
  comes before it, and nothing else of the state changes. The record goes to the
  configured logger with message \<^verbatim>\<open>request\<close> and has exactly the fields method, path,
  status, bytes, remote, correlation\_id and duration, in that order. The field
  correlation\_id holds what \<^verbatim>\<open>GetCorrID\<close> reads from the request's context; when the
  context has no correlation ID the field is there, with the empty string.
\<close>

theorem RequestLogger_one_record_after_next:
  assumes "next (NewWrapResponseWriter w (ProtoMajor r)) r world = (None, ww, world1)"
  shows "\<exists>rec. RequestLogger (Some l) next w r world =
            (None, Unwrap ww, world1\<lparr>log_output := log_output world1 @ [rec]\<rparr>)
     \<and> log_logger rec = l \<and> log_msg rec = ''request''
     \<and> map fst (log_attrs rec) =
          [''method'', ''path'', ''status'', ''bytes'', ''remote'', ''correlation_id'', ''duration'']
     \<and> map_of (log_attrs rec) ''correlation_id'' = Some (StringValue (GetCorrID (Context r)))
     \<and> (CorrelationIDKey \<notin> bound_keys (Context r) \<longrightarrow>
          map_of (log_attrs rec) ''correlation_id'' = Some (StringValue ''''))"
proof -
  have "CorrelationIDKey \<notin> bound_keys (Context r) \<longrightarrow> GetCorrID (Context r) = ''''"
    by (simp add: GetCorrID_unbound)
  then show ?thesis
    using RequestLogger_returns [of "next" w r world ww world1 l] assms
    by (intro exI [of _ "\<lparr>log_logger = l, log_msg = ''request'',
          log_attrs = request_attrs r ww (clock world1 - clock world)\<rparr>"])
       (simp add: request_attrs_def)
qed

theorem RequestLogger_one_record_after_next_witness:
  "script_handler example_deps [Call_WriteHeader 404] (\<lambda>world. world\<lparr>clock := clock world + 1500\<rparr>)
      (NewWrapResponseWriter NewRecorder (ProtoMajor example_request)) example_request initial_world
    = (None,
       basicWriter (ResponseRecorder \<lparr>Code = 404, HeaderMap = Map.empty, Body = [], rec_wroteHeader = True\<rparr>)
         True 404 0,
       initial_world\<lparr>clock := 1500\<rparr>)
   \<and> RequestLogger (Some (Slog 1))
        (script_handler example_deps [Call_WriteHeader 404] (\<lambda>world. world\<lparr>clock := clock world + 1500\<rparr>))
        NewRecorder example_request initial_world
    = (None,
       ResponseRecorder \<lparr>Code = 404, HeaderMap = Map.empty, Body = [], rec_wroteHeader = True\<rparr>,
       initial_world\<lparr>clock := 1500, log_output :=
         [\<lparr>log_logger = Slog 1, log_msg = ''request'',
           log_attrs =
             [(''method'', StringValue ''GET''),
              (''path'', StringValue ''/test''),
              (''status'', IntValue 404),
              (''bytes'', IntValue 0),
              (''remote'', StringValue ''192.0.2.1:1234''),
              (''correlation_id'', StringValue ''''),
              (''duration'', DurationValue 1500)]\<rparr>]\<rparr>)"
proof -
  let ?h = "script_handler example_deps [Call_WriteHeader 404]
              (\<lambda>world. world\<lparr>clock := clock world + 1500\<rparr>)"
  let ?ww = "basicWriter
     (ResponseRecorder \<lparr>Code = 404, HeaderMap = Map.empty, Body = [], rec_wroteHeader = True\<rparr>)
     True 404 0"
  have h: "?h (NewWrapResponseWriter NewRecorder (ProtoMajor example_request)) example_request
             initial_world
        = (None, ?ww, initial_world\<lparr>clock := 1500\<rparr>)"
    by (simp add: script_handler_def NewWrapResponseWriter_def NewRecorder_def initial_world_def)
  obtain rec where r: "RequestLogger (Some (Slog 1)) ?h NewRecorder example_request initial_world
        = (None, Unwrap ?ww,
           (initial_world\<lparr>clock := 1500\<rparr>)
             \<lparr>log_output := log_output (initial_world\<lparr>clock := 1500\<rparr>) @ [rec]\<rparr>)"
    using RequestLogger_one_record_after_next [of ?h NewRecorder example_request initial_world
        ?ww "initial_world\<lparr>clock := 1500\<rparr>" "Slog 1"] h by blast
  have "RequestLogger (Some (Slog 1)) ?h NewRecorder example_request initial_world
    = (None,
       ResponseRecorder \<lparr>Code = 404, HeaderMap = Map.empty, Body = [], rec_wroteHeader = True\<rparr>,
       initial_world\<lparr>clock := 1500, log_output :=
         [\<lparr>log_logger = Slog 1, log_msg = ''request'',
           log_attrs =
             [(''method'', StringValue ''GET''),
              (''path'', StringValue ''/test''),
              (''status'', IntValue 404),
              (''bytes'', IntValue 0),
              (''remote'', StringValue ''192.0.2.1:1234''),
              (''correlation_id'', StringValue ''''),
              (''duration'', DurationValue 1500)]\<rparr>]\<rparr>)"
    using r
    by (simp add: RequestLogger_def logger_Info_def script_handler_def NewWrapResponseWriter_def
        NewRecorder_def initial_world_def example_request_def GetCorrID_def)
  with h show ?thesis by simp
qed

subsection \<open>What the wrapper records\<close>

lemma WriteHeader_three_digits: "100 \<le> c \<Longrightarrow> c \<le> 999 \<Longrightarrow> fst (WriteHeader w c) = None"
  by (induction w) (auto split: prod.splits)

lemma WriteHeader_StatusOK: "fst (WriteHeader w StatusOK) = None"
  by (simp add: WriteHeader_three_digits StatusOK_def)


lemma body_of_Header_update [simp]: "body_of (rw_Header_update w h) = body_of w"
  by (induction w) auto









text \<open>A handler that neither sets a status nor writes leaves the wrapper's code at zero.\<close>

lemma recorded_untouched:
  "explicit_status cs = None \<Longrightarrow> \<forall>buf. Call_Write buf \<notin> set cs \<Longrightarrow> recorded code cs = code"
  by (induction cs rule: explicit_status.induct) auto

text \<open>
  A code without three digits: the handler panics in \<^verbatim>\<open>WriteHeader\<close>, before its write,
  and nothing is logged.
\<close>

lemma RequestLogger_invalid_code:
  "RequestLogger lg (script_handler d [Call_WriteHeader 99, Call_Write ''abc''] f) NewRecorder r world =
     (Some (InvalidWriteHeaderCode 99), NewRecorder, f world)"
  by (simp add: RequestLogger_def script_handler_def NewWrapResponseWriter_def NewRecorder_def)



subsection \<open>Run: what holds in every reachable state\<close>

lemma shutdown_results_append [simp]:
  "shutdown_results (es @ es') = shutdown_results es @ shutdown_results es'"
  by (induction es rule: shutdown_results.induct) auto

lemma selects_append [simp]: "selects (es @ es') = selects es @ selects es'"
  by (induction es rule: selects.induct) auto

lemma exec_append: "exec (es @ es') st = (case exec es st of None \<Rightarrow> None | Some st' \<Rightarrow> exec es' st')"
  by (induction es arbitrary: st) (auto split: option.splits)

lemma exec_snoc:
  "exec (es @ [e]) st = Some st' \<longleftrightarrow> (\<exists>st1. exec es st = Some st1 \<and> step e st1 = Some st')"
  by (simp add: exec_append split: option.splits)

lemma run_inv_start: "run_inv s done [] (Run_start s done world)"
  by (simp add: run_inv_def main_inv_def task_inv_def Run_start_def make_chan_def)

lemma inv_Cancel:
  assumes "run_inv s done es st" and "step Cancel st = Some st'"
  shows "run_inv s done (es @ [Cancel]) st'"
proof -
  from assms(2) have st': "st' = st\<lparr>ctx_Done := True\<rparr>" by simp
  have "main_inv s (es @ [Cancel]) st'"
    using assms(1) unfolding st' run_inv_def main_inv_def by auto
  moreover have "task_inv s (es @ [Cancel]) st'"
    using assms(1) unfolding st' run_inv_def task_inv_def by simp
  ultimately show ?thesis
    using assms(1) unfolding st' run_inv_def by simp
qed

lemma inv_Task_runs:
  assumes "run_inv s done es st" and "step Task_runs st = Some st'"
  shows "run_inv s done (es @ [Task_runs]) st'"
proof -
  from assms(2) consider
      (panic) "task_pc st = Task_start" "logger (server st) = None"
              "st' = st\<lparr>task_pc := Task_panicked, run_world := run_world st\<rparr>"
    | (log) w where "task_pc st = Task_start" "st' = st\<lparr>task_pc := Task_ListenAndServe, run_world := w\<rparr>"
    | (send) err where "task_pc st = Task_send err"
              "st' = st\<lparr>errCh := (errCh st)\<lparr>chan_buf := chan_buf (errCh st) @ [err]\<rparr>, task_pc := Task_done\<rparr>"
    by (auto simp: task_runs_def logger_Info_def chan_send_def
        split: task_pc.splits option.splits if_splits)
  then show ?thesis
  proof cases
    case panic
    have "main_inv s (es @ [Task_runs]) st'"
      using assms(1) unfolding panic run_inv_def main_inv_def by auto
    moreover have "task_inv s (es @ [Task_runs]) st'"
      using assms(1) panic(1,2) unfolding panic(3) run_inv_def task_inv_def by auto
    ultimately show ?thesis
      using assms(1) unfolding panic run_inv_def by simp
  next
    case log
    have "main_inv s (es @ [Task_runs]) st'"
      using assms(1) unfolding log run_inv_def main_inv_def by auto
    moreover have "task_inv s (es @ [Task_runs]) st'"
      using assms(1) log(1) unfolding log(2) run_inv_def task_inv_def by auto
    ultimately show ?thesis
      using assms(1) unfolding log run_inv_def by simp
  next
    case send
    have "main_inv s (es @ [Task_runs]) st'"
      using assms(1) unfolding send run_inv_def main_inv_def by auto
    moreover have "task_inv s (es @ [Task_runs]) st'"
      using assms(1) send(1) unfolding send(2) run_inv_def task_inv_def by auto
    ultimately show ?thesis
      using assms(1) unfolding send run_inv_def by simp
  qed
qed

lemma inv_ListenAndServe_returns:
  assumes "run_inv s done es st" and "step (ListenAndServe_returns res) st = Some st'"
  shows "run_inv s done (es @ [ListenAndServe_returns res]) st'"
proof -
  from assms(2) consider
      (send) err where "task_pc st = Task_ListenAndServe" "res = Some err" "err \<noteq> ErrServerClosed"
              "st' = st\<lparr>task_pc := Task_send err\<rparr>"
    | (quiet) "task_pc st = Task_ListenAndServe" "st' = st\<lparr>task_pc := Task_done\<rparr>"
    by (auto simp: listen_returns_def split: option.splits if_splits)
  then show ?thesis
  proof cases
    case send
    have "main_inv s (es @ [ListenAndServe_returns res]) st'"
      using assms(1) unfolding send(4) run_inv_def main_inv_def by auto
    moreover have "task_inv s (es @ [ListenAndServe_returns res]) st'"
      using assms(1) send(1,2,3) unfolding send(4) run_inv_def task_inv_def by auto
    ultimately show ?thesis
      using assms(1) unfolding send(4) run_inv_def by simp
  next
    case quiet
    have "main_inv s (es @ [ListenAndServe_returns res]) st'"
      using assms(1) unfolding quiet(2) run_inv_def main_inv_def by auto
    moreover have "task_inv s (es @ [ListenAndServe_returns res]) st'"
      using assms(1) quiet(1) unfolding quiet(2) run_inv_def task_inv_def by auto
    ultimately show ?thesis
      using assms(1) unfolding quiet(2) run_inv_def by simp
  qed
qed

lemma inv_Select_ctx_Done:
  assumes "run_inv s done es st" and "step (Select Case_ctx_Done) st = Some st'"
  shows "run_inv s done (es @ [Select Case_ctx_Done]) st'"
proof -
  from assms(2) consider
      (panic) "main_pc st = Main_select" "ctx_Done st" "logger (server st) = None"
              "st' = st\<lparr>main_pc := Main_panicked, run_world := run_world st\<rparr>"
    | (shut) w where "main_pc st = Main_select" "ctx_Done st"
              "st' = st\<lparr>main_pc := Main_Shutdown,
                         Shutdown_calls := Shutdown_calls st @ [5 * Second], run_world := w\<rparr>"
    by (auto simp: select_ctx_Done_def logger_Info_def split: option.splits if_splits)
  then show ?thesis
  proof cases
    case panic
    have "main_inv s (es @ [Select Case_ctx_Done]) st'"
      using assms(1) panic(1,2,3) unfolding panic(4) run_inv_def main_inv_def by auto
    moreover have "task_inv s (es @ [Select Case_ctx_Done]) st'"
      using assms(1) unfolding panic(4) run_inv_def task_inv_def by auto
    ultimately show ?thesis
      using assms(1) unfolding panic(4) run_inv_def by simp
  next
    case shut
    have "main_inv s (es @ [Select Case_ctx_Done]) st'"
      using assms(1) shut(1,2) unfolding shut(3) run_inv_def main_inv_def by auto
    moreover have "task_inv s (es @ [Select Case_ctx_Done]) st'"
      using assms(1) unfolding shut(3) run_inv_def task_inv_def by auto
    ultimately show ?thesis
      using assms(1) unfolding shut(3) run_inv_def by simp
  qed
qed

lemma inv_Select_errCh:
  assumes "run_inv s done es st" and "step (Select Case_errCh) st = Some st'"
  shows "run_inv s done (es @ [Select Case_errCh]) st'"
proof -
  from assms(2) obtain err vs where
    pc: "main_pc st = Main_select" and buf: "chan_buf (errCh st) = err # vs"
    and st': "st' = st\<lparr>errCh := (errCh st)\<lparr>chan_buf := vs\<rparr>,
                       main_pc := Main_returned (Some (Errorf_w ''server error: '' err))\<rparr>"
    by (auto simp: select_errCh_def chan_recv_def split: option.splits if_splits list.splits)
  have "main_inv s (es @ [Select Case_errCh]) st'"
    using assms(1) pc buf unfolding st' run_inv_def main_inv_def task_inv_def by auto
  moreover have "task_inv s (es @ [Select Case_errCh]) st'"
    using assms(1) buf unfolding st' run_inv_def task_inv_def by auto
  ultimately show ?thesis
    using assms(1) unfolding st' run_inv_def by simp
qed

lemma inv_Shutdown_returns:
  assumes "run_inv s done es st" and "step (Shutdown_returns res) st = Some st'"
  shows "run_inv s done (es @ [Shutdown_returns res]) st'"
proof -
  from assms(2) consider
      (panic) "main_pc st = Main_Shutdown" "logger (server st) = None"
              "st' = st\<lparr>main_pc := Main_panicked, run_world := run_world st\<rparr>"
    | (ret) w where "main_pc st = Main_Shutdown"
              "st' = st\<lparr>main_pc := Main_returned (shutdown_outcome res), run_world := w\<rparr>"
    | (err) "main_pc st = Main_Shutdown"
              "st' = st\<lparr>main_pc := Main_returned (shutdown_outcome res)\<rparr>"
    by (auto simp: shutdown_returns_def logger_Info_def shutdown_outcome_def
        split: option.splits if_splits)
  then show ?thesis
  proof cases
    case panic
    have "main_inv s (es @ [Shutdown_returns res]) st'"
      using assms(1) panic(1,2) unfolding panic(3) run_inv_def main_inv_def by auto
    moreover have "task_inv s (es @ [Shutdown_returns res]) st'"
      using assms(1) unfolding panic(3) run_inv_def task_inv_def by auto
    ultimately show ?thesis
      using assms(1) unfolding panic(3) run_inv_def by simp
  next
    case ret
    have "main_inv s (es @ [Shutdown_returns res]) st'"
      using assms(1) ret(1) unfolding ret(2) run_inv_def main_inv_def by auto
    moreover have "task_inv s (es @ [Shutdown_returns res]) st'"
      using assms(1) unfolding ret(2) run_inv_def task_inv_def by auto
    ultimately show ?thesis
      using assms(1) unfolding ret(2) run_inv_def by simp
  next
    case err
    have "main_inv s (es @ [Shutdown_returns res]) st'"
      using assms(1) err(1) unfolding err(2) run_inv_def main_inv_def by auto
    moreover have "task_inv s (es @ [Shutdown_returns res]) st'"
      using assms(1) unfolding err(2) run_inv_def task_inv_def by auto
    ultimately show ?thesis
      using assms(1) unfolding err(2) run_inv_def by simp
  qed
qed

lemma run_inv_step:
  assumes "run_inv s done es st" and "step e st = Some st'"
  shows "run_inv s done (es @ [e]) st'"
proof (cases e)
  case Cancel
  with assms show ?thesis using inv_Cancel by blast
next
  case Task_runs
  with assms show ?thesis using inv_Task_runs by blast
next
  case (ListenAndServe_returns res)
  with assms show ?thesis using inv_ListenAndServe_returns by blast
next
  case (Select c)
  with assms show ?thesis using inv_Select_ctx_Done inv_Select_errCh by (cases c) blast+
next
  case (Shutdown_returns res)
  with assms show ?thesis using inv_Shutdown_returns by blast
qed

lemma run_inv_exec:
  "exec es (Run_start s done world) = Some st \<Longrightarrow> run_inv s done es st"
proof (induction es arbitrary: st rule: rev_induct)
  case Nil
  then show ?case using run_inv_start [of s "done" world] by simp
next
  case (snoc e es)
  then obtain st1 where "exec es (Run_start s done world) = Some st1" and "step e st1 = Some st"
    by (auto simp: exec_snoc)
  then show ?case using snoc.IH run_inv_step by blast
qed

subsection \<open>Run: the channel, the two cases, the results\<close>

lemma set_selects: "c \<in> set (selects es) \<longleftrightarrow> Select c \<in> set es"
  by (induction es rule: selects.induct) auto

lemma chan_send_full: "chan_cap ch \<le> length (chan_buf ch) \<Longrightarrow> chan_send ch v = None"
  by (simp add: chan_send_def)

text \<open>
  C8. In every state that an invocation of \<^verbatim>\<open>Run\<close> can reach, whatever the caller has
  done (it may wait in the \<^verbatim>\<open>select\<close>, be inside \<^verbatim>\<open>Shutdown\<close>, or have returned through
  the cancellation case): the channel \<^verbatim>\<open>errCh\<close> has capacity 1, holds at most one value,
  and a task that stands at its send \<^verbatim>\<open>errCh <- err\<close> can take that step at once; the
  value goes into the buffer and the task ends. No receiver is needed.
\<close>

theorem errCh_send_never_blocks:
  assumes "exec es (Run_start s done world) = Some st"
  shows "1 \<le> chan_cap (errCh st)
     \<and> length (chan_buf (errCh st)) \<le> 1
     \<and> (\<forall>err. task_pc st = Task_send err \<longrightarrow>
          (\<exists>st'. step Task_runs st = Some st' \<and> task_pc st' = Task_done
                \<and> chan_buf (errCh st') = [err] \<and> main_pc st' = main_pc st))"
proof -
  have inv: "task_inv s es st"
    using run_inv_exec [OF assms] by (simp add: run_inv_def)
  then have cap: "chan_cap (errCh st) = 1" and len: "length (chan_buf (errCh st)) \<le> 1"
    by (simp_all add: task_inv_def)
  have "\<exists>st'. step Task_runs st = Some st' \<and> task_pc st' = Task_done
                \<and> chan_buf (errCh st') = [err] \<and> main_pc st' = main_pc st"
    if "task_pc st = Task_send err" for err
  proof -
    from inv that have "chan_buf (errCh st) = []"
      by (simp add: task_inv_def)
    with cap that show ?thesis
      by (simp add: task_runs_def chan_send_def)
  qed
  with cap len show ?thesis by simp
qed

theorem errCh_send_never_blocks_witness:
  "exec [Task_runs, Cancel, Select Case_ctx_Done, Shutdown_returns None,
         ListenAndServe_returns (Some (Err ''accept tcp: use of closed network connection''))]
     (Run_start example_server False initial_world)
   = Some \<lparr>server = example_server, main_pc = Main_returned None,
           task_pc = Task_send (Err ''accept tcp: use of closed network connection''),
           errCh = \<lparr>chan_cap = 1, chan_buf = []\<rparr>, ctx_Done = True,
           Shutdown_calls = [5000000000],
           run_world = initial_world\<lparr>log_output :=
             [\<lparr>log_logger = Slog 0, log_msg = ''server starting'',
               log_attrs = [(''addr'', StringValue ''invalid:address:format'')]\<rparr>,
              \<lparr>log_logger = Slog 0, log_msg = ''shutdown signal received'', log_attrs = []\<rparr>,
              \<lparr>log_logger = Slog 0, log_msg = ''server gracefully stopped'', log_attrs = []\<rparr>]\<rparr>\<rparr>
   \<and> map_option (chan_buf \<circ> errCh)
       (exec [Task_runs, Cancel, Select Case_ctx_Done, Shutdown_returns None,
              ListenAndServe_returns (Some (Err ''accept tcp: use of closed network connection'')),
              Task_runs]
          (Run_start example_server False initial_world))
     = Some [Err ''accept tcp: use of closed network connection'']"
proof -
  let ?es = "[Task_runs, Cancel, Select Case_ctx_Done, Shutdown_returns None,
         ListenAndServe_returns (Some (Err ''accept tcp: use of closed network connection''))]"
  let ?st = "\<lparr>server = example_server, main_pc = Main_returned None,
           task_pc = Task_send (Err ''accept tcp: use of closed network connection''),
           errCh = \<lparr>chan_cap = 1, chan_buf = []\<rparr>, ctx_Done = True,
           Shutdown_calls = [5000000000],
           run_world = initial_world\<lparr>log_output :=
             [\<lparr>log_logger = Slog 0, log_msg = ''server starting'',
               log_attrs = [(''addr'', StringValue ''invalid:address:format'')]\<rparr>,
              \<lparr>log_logger = Slog 0, log_msg = ''shutdown signal received'', log_attrs = []\<rparr>,
              \<lparr>log_logger = Slog 0, log_msg = ''server gracefully stopped'', log_attrs = []\<rparr>]\<rparr>\<rparr>"
  have lg: "logger example_server = Some (Slog 0)"
    and ad: "Server_Addr (httpServer example_server) = ''invalid:address:format''"
    by (simp_all add: example_server_def NewServer_def example_deps_def Let_def)
  have run: "exec ?es (Run_start example_server False initial_world) = Some ?st"
    by (simp add: Run_start_def task_runs_def listen_returns_def select_ctx_Done_def
        shutdown_returns_def logger_Info_def make_chan_def Second_def lg ad initial_world_def)
  from errCh_send_never_blocks [OF run]
  obtain st' where stp: "step Task_runs ?st = Some st'"
    and buf: "chan_buf (errCh st') = [Err ''accept tcp: use of closed network connection'']"
    by auto
  from run stp have "exec (?es @ [Task_runs]) (Run_start example_server False initial_world) = Some st'"
    by (subst exec_snoc) blast
  then have "exec [Task_runs, Cancel, Select Case_ctx_Done, Shutdown_returns None,
              ListenAndServe_returns (Some (Err ''accept tcp: use of closed network connection'')),
              Task_runs] (Run_start example_server False initial_world) = Some st'"
    by (simp only: append.simps)
  then have "map_option (chan_buf \<circ> errCh)
       (exec [Task_runs, Cancel, Select Case_ctx_Done, Shutdown_returns None,
              ListenAndServe_returns (Some (Err ''accept tcp: use of closed network connection'')),
              Task_runs]
          (Run_start example_server False initial_world))
     = Some [Err ''accept tcp: use of closed network connection'']"
    using buf by (simp only: option.map comp_apply)
  with run show ?thesis by (rule conjI)
qed

lemma Second_5: "5 * Second = 5000000000"
  by (simp add: Second_def)

lemma cancel_branch_returns:
  assumes "logger s = Some l"
  shows "\<exists>st'. exec [Select Case_ctx_Done, Shutdown_returns res] (Run_start s True world) = Some st'
            \<and> main_pc st' = Main_returned (shutdown_outcome res)
            \<and> Shutdown_calls st' = [5 * Second]"
  using assms
  by (cases res)
     (simp_all add: Run_start_def select_ctx_Done_def shutdown_returns_def logger_Info_def
        shutdown_outcome_def)

text \<open>
  C2. Whenever a run of \<^verbatim>\<open>Run\<close> in which the \<^verbatim>\<open>select\<close> committed to \<^verbatim>\<open>ctx.Done()\<close> has
  returned \<^verbatim>\<open>r\<close>: the context was cancelled, \<^verbatim>\<open>Shutdown\<close> was called exactly once, with a
  timeout of \<^verbatim>\<open>5 * time.Second\<close> (5000000000 ns), it returned exactly once, and \<^verbatim>\<open>r\<close> is
  nil when it returned nil and \<^verbatim>\<open>fmt.Errorf("shutdown: %w", err)\<close> when it returned
  \<^verbatim>\<open>err\<close>. And \<^verbatim>\<open>Run\<close> does return that way: called with a context that is already
  cancelled, on a server with a logger, the \<^verbatim>\<open>select\<close> can commit to \<^verbatim>\<open>ctx.Done()\<close> at
  once, and when \<^verbatim>\<open>Shutdown\<close> returns \<^verbatim>\<open>res\<close>, \<^verbatim>\<open>Run\<close> returns the matching result.
\<close>

theorem Run_cancellation_branch:
  "(exec es (Run_start s done world) = Some st \<and> Select Case_ctx_Done \<in> set es
      \<and> main_pc st = Main_returned r \<longrightarrow>
      ctx_Done st
      \<and> Shutdown_calls st = [5 * Second] \<and> 5 * Second = 5000000000
      \<and> (\<exists>res. shutdown_results es = [res]
            \<and> (res = None \<longrightarrow> r = None)
            \<and> (\<forall>err. res = Some err \<longrightarrow>
                   r = Some (Errorf_w ''shutdown: '' err)
                   \<and> errors_Unwrap (Errorf_w ''shutdown: '' err) = Some err
                   \<and> Error (Errorf_w ''shutdown: '' err) = ''shutdown: '' @ Error err)))
   \<and> (logger s \<noteq> None \<longrightarrow>
        (\<exists>st'. exec [Select Case_ctx_Done, Shutdown_returns res] (Run_start s True world) = Some st'
            \<and> main_pc st' = Main_returned (case res of None \<Rightarrow> None
                                            | Some err \<Rightarrow> Some (Errorf_w ''shutdown: '' err))
            \<and> Shutdown_calls st' = [5 * Second]))"
proof (intro conjI impI)
  assume a: "exec es (Run_start s done world) = Some st \<and> Select Case_ctx_Done \<in> set es
      \<and> main_pc st = Main_returned r"
  then have inv: "main_inv s es st"
    using run_inv_exec [of es s "done" world st] by (simp add: run_inv_def)
  have nerr: "selects es \<noteq> [Case_errCh]"
    using a set_selects [of Case_ctx_Done es] by auto
  from inv a nerr have br: "Shutdown_calls st = [5 * Second] \<and> ctx_Done st
      \<and> (\<exists>res. shutdown_results es = [res] \<and> r = shutdown_outcome res)"
    unfolding main_inv_def by blast
  show "ctx_Done st" using br by simp
  show "Shutdown_calls st = [5 * Second]" using br by simp
  show "5 * Second = 5000000000" by (rule Second_5)
  show "\<exists>res. shutdown_results es = [res]
            \<and> (res = None \<longrightarrow> r = None)
            \<and> (\<forall>err. res = Some err \<longrightarrow>
                   r = Some (Errorf_w ''shutdown: '' err)
                   \<and> errors_Unwrap (Errorf_w ''shutdown: '' err) = Some err
                   \<and> Error (Errorf_w ''shutdown: '' err) = ''shutdown: '' @ Error err)"
    using br by (auto simp: shutdown_outcome_def Errorf_w_def)
next
  assume "logger s \<noteq> None"
  then obtain l where "logger s = Some l" by auto
  from cancel_branch_returns [OF this, of res world]
  show "\<exists>st'. exec [Select Case_ctx_Done, Shutdown_returns res] (Run_start s True world) = Some st'
            \<and> main_pc st' = Main_returned (case res of None \<Rightarrow> None
                                            | Some err \<Rightarrow> Some (Errorf_w ''shutdown: '' err))
            \<and> Shutdown_calls st' = [5 * Second]"
    by (simp add: shutdown_outcome_def)
qed

lemma example_server_logger: "logger example_server = Some (Slog 0)"
  by (simp add: example_server_def NewServer_def example_deps_def Let_def)

lemma example_server_Addr: "Server_Addr (httpServer example_server) = ''invalid:address:format''"
  by (simp add: example_server_def NewServer_def Let_def)

theorem Run_cancellation_branch_witness:
  "(exec [Task_runs, Select Case_ctx_Done, Shutdown_returns (Some (Err ''context deadline exceeded''))]
        (Run_start example_server True initial_world)
      = Some \<lparr>server = example_server,
              main_pc = Main_returned (Some (Errorf_w ''shutdown: '' (Err ''context deadline exceeded''))),
              task_pc = Task_ListenAndServe,
              errCh = \<lparr>chan_cap = 1, chan_buf = []\<rparr>, ctx_Done = True,
              Shutdown_calls = [5000000000],
              run_world = initial_world\<lparr>log_output :=
                [\<lparr>log_logger = Slog 0, log_msg = ''server starting'',
                  log_attrs = [(''addr'', StringValue ''invalid:address:format'')]\<rparr>,
                 \<lparr>log_logger = Slog 0, log_msg = ''shutdown signal received'', log_attrs = []\<rparr>]\<rparr>\<rparr>
    \<and> Select Case_ctx_Done
        \<in> set [Task_runs, Select Case_ctx_Done, Shutdown_returns (Some (Err ''context deadline exceeded''))])
   \<and> shutdown_results
        [Task_runs, Select Case_ctx_Done, Shutdown_returns (Some (Err ''context deadline exceeded''))]
      = [Some (Err ''context deadline exceeded'')]
   \<and> Error (Errorf_w ''shutdown: '' (Err ''context deadline exceeded''))
      = ''shutdown: context deadline exceeded''
   \<and> logger example_server \<noteq> None
   \<and> (\<exists>st'. exec [Select Case_ctx_Done, Shutdown_returns None]
               (Run_start example_server True initial_world) = Some st'
          \<and> main_pc st' = Main_returned None \<and> Shutdown_calls st' = [5 * Second])"
proof -
  let ?es = "[Task_runs, Select Case_ctx_Done, Shutdown_returns (Some (Err ''context deadline exceeded''))]"
  let ?r = "Some (Errorf_w ''shutdown: '' (Err ''context deadline exceeded''))"
  let ?st = "\<lparr>server = example_server, main_pc = Main_returned ?r,
              task_pc = Task_ListenAndServe,
              errCh = \<lparr>chan_cap = 1, chan_buf = []\<rparr>, ctx_Done = True,
              Shutdown_calls = [5000000000],
              run_world = initial_world\<lparr>log_output :=
                [\<lparr>log_logger = Slog 0, log_msg = ''server starting'',
                  log_attrs = [(''addr'', StringValue ''invalid:address:format'')]\<rparr>,
                 \<lparr>log_logger = Slog 0, log_msg = ''shutdown signal received'', log_attrs = []\<rparr>]\<rparr>\<rparr>"
  have run: "exec ?es (Run_start example_server True initial_world) = Some ?st"
    by (simp add: Run_start_def task_runs_def select_ctx_Done_def shutdown_returns_def
        logger_Info_def make_chan_def Second_def example_server_logger example_server_Addr
        initial_world_def)
  have mem: "Select Case_ctx_Done \<in> set ?es" by simp
  have pc: "main_pc ?st = Main_returned ?r" by simp
  have lg: "logger example_server \<noteq> None" by (simp add: example_server_logger)
  note inst = Run_cancellation_branch [of ?es example_server True initial_world ?st ?r None]
  from inst run mem pc have "shutdown_results ?es = [Some (Err ''context deadline exceeded'')]"
    by simp
  moreover from inst lg have "\<exists>st'. exec [Select Case_ctx_Done, Shutdown_returns None]
               (Run_start example_server True initial_world) = Some st'
          \<and> main_pc st' = Main_returned None \<and> Shutdown_calls st' = [5 * Second]"
    by simp
  moreover have "Error (Errorf_w ''shutdown: '' (Err ''context deadline exceeded''))
      = ''shutdown: context deadline exceeded''"
    by (simp add: Errorf_w_def)
  ultimately show ?thesis using run mem lg by (intro conjI)
qed

lemma error_branch_returns:
  assumes "logger s = Some l" and "e \<noteq> ErrServerClosed"
  shows "\<exists>st'. exec [Task_runs, ListenAndServe_returns (Some e), Task_runs, Select Case_errCh]
                 (Run_start s False world) = Some st'
            \<and> main_pc st' = Main_returned (Some (Errorf_w ''server error: '' e))
            \<and> Shutdown_calls st' = []"
  using assms
  by (simp add: Run_start_def task_runs_def listen_returns_def select_errCh_def logger_Info_def
      chan_send_def chan_recv_def make_chan_def)

lemma server_closed_filtered:
  assumes "logger s = Some l"
  shows "\<exists>st'. exec [Task_runs, ListenAndServe_returns (Some ErrServerClosed)]
                 (Run_start s False world) = Some st'
            \<and> task_pc st' = Task_done \<and> chan_buf (errCh st') = []
            \<and> step (Select Case_errCh) st' = None"
  using assms
  by (simp add: Run_start_def task_runs_def listen_returns_def select_errCh_def logger_Info_def
      chan_recv_def make_chan_def)

text \<open>
  C3. In every run of \<^verbatim>\<open>Run\<close> during which the context is never cancelled:
  \<^verbatim>\<open>Shutdown\<close> is never called and the cancellation case of the \<^verbatim>\<open>select\<close> cannot proceed;
  \<^verbatim>\<open>http.ErrServerClosed\<close> is never put on the channel; and if \<^verbatim>\<open>Run\<close> has returned, it
  returned \<^verbatim>\<open>fmt.Errorf("server error: %w", e)\<close> for an error \<^verbatim>\<open>e\<close>, other than
  \<^verbatim>\<open>ErrServerClosed\<close>, that \<^verbatim>\<open>ListenAndServe\<close> returned. And \<^verbatim>\<open>Run\<close> does return so: on a
  server with a logger, when \<^verbatim>\<open>ListenAndServe\<close> fails with such an \<^verbatim>\<open>e\<close> (for instance on
  an address it cannot parse; \<^verbatim>\<open>NewServer\<close> itself binds nothing and has no error to
  return), the task sends it and the \<^verbatim>\<open>select\<close> returns it wrapped. When
  \<^verbatim>\<open>ListenAndServe\<close> returns \<^verbatim>\<open>ErrServerClosed\<close>, the task ends without a send.
\<close>

theorem Run_listener_error:
  "(exec es (Run_start s False world) = Some st \<and> Cancel \<notin> set es \<longrightarrow>
       \<not> ctx_Done st \<and> Shutdown_calls st = [] \<and> step (Select Case_ctx_Done) st = None
     \<and> ErrServerClosed \<notin> set (chan_buf (errCh st))
     \<and> (\<forall>r. main_pc st = Main_returned r \<longrightarrow>
           (\<exists>e. r = Some (Errorf_w ''server error: '' e) \<and> e \<noteq> ErrServerClosed
               \<and> ListenAndServe_returns (Some e) \<in> set es
               \<and> errors_Unwrap (Errorf_w ''server error: '' e) = Some e
               \<and> Error (Errorf_w ''server error: '' e) = ''server error: '' @ Error e)))
   \<and> (logger s \<noteq> None \<and> e \<noteq> ErrServerClosed \<longrightarrow>
        (\<exists>st'. exec [Task_runs, ListenAndServe_returns (Some e), Task_runs, Select Case_errCh]
                 (Run_start s False world) = Some st'
            \<and> main_pc st' = Main_returned (Some (Errorf_w ''server error: '' e))
            \<and> Shutdown_calls st' = []))
   \<and> (logger s \<noteq> None \<longrightarrow>
        (\<exists>st'. exec [Task_runs, ListenAndServe_returns (Some ErrServerClosed)]
                 (Run_start s False world) = Some st'
            \<and> task_pc st' = Task_done \<and> chan_buf (errCh st') = []
            \<and> step (Select Case_errCh) st' = None))"
proof (intro conjI impI)
  assume a: "exec es (Run_start s False world) = Some st \<and> Cancel \<notin> set es"
  then have inv: "run_inv s False es st"
    using run_inv_exec [of es s False world st] by simp
  with a show nd: "\<not> ctx_Done st" by (simp add: run_inv_def)
  from inv nd have m: "main_pc st = Main_select \<and> Shutdown_calls st = []
      \<or> (\<exists>e. main_pc st = Main_returned (Some (Errorf_w ''server error: '' e))
            \<and> Shutdown_calls st = [] \<and> e \<noteq> ErrServerClosed
            \<and> ListenAndServe_returns (Some e) \<in> set es)"
    unfolding run_inv_def main_inv_def by (cases "main_pc st") auto
  then show "Shutdown_calls st = []" by auto
  from nd show "step (Select Case_ctx_Done) st = None"
    by (simp add: select_ctx_Done_def)
  from inv show "ErrServerClosed \<notin> set (chan_buf (errCh st))"
    unfolding run_inv_def task_inv_def by blast
  from m show "\<forall>r. main_pc st = Main_returned r \<longrightarrow>
           (\<exists>e. r = Some (Errorf_w ''server error: '' e) \<and> e \<noteq> ErrServerClosed
               \<and> ListenAndServe_returns (Some e) \<in> set es
               \<and> errors_Unwrap (Errorf_w ''server error: '' e) = Some e
               \<and> Error (Errorf_w ''server error: '' e) = ''server error: '' @ Error e)"
    by (auto simp: Errorf_w_def)
next
  assume "logger s \<noteq> None \<and> e \<noteq> ErrServerClosed"
  then obtain l where "logger s = Some l" and "e \<noteq> ErrServerClosed" by auto
  then show "\<exists>st'. exec [Task_runs, ListenAndServe_returns (Some e), Task_runs, Select Case_errCh]
                 (Run_start s False world) = Some st'
            \<and> main_pc st' = Main_returned (Some (Errorf_w ''server error: '' e))
            \<and> Shutdown_calls st' = []"
    by (rule error_branch_returns)
next
  assume "logger s \<noteq> None"
  then obtain l where "logger s = Some l" by auto
  then show "\<exists>st'. exec [Task_runs, ListenAndServe_returns (Some ErrServerClosed)]
                 (Run_start s False world) = Some st'
            \<and> task_pc st' = Task_done \<and> chan_buf (errCh st') = []
            \<and> step (Select Case_errCh) st' = None"
    by (rule server_closed_filtered)
qed

theorem Run_listener_error_witness:
  "(exec [Task_runs, ListenAndServe_returns (Some bind_error), Task_runs, Select Case_errCh]
        (Run_start example_server False initial_world)
      = Some \<lparr>server = example_server,
              main_pc = Main_returned (Some (Errorf_w ''server error: '' bind_error)),
              task_pc = Task_done,
              errCh = \<lparr>chan_cap = 1, chan_buf = []\<rparr>, ctx_Done = False,
              Shutdown_calls = [],
              run_world = initial_world\<lparr>log_output :=
                [\<lparr>log_logger = Slog 0, log_msg = ''server starting'',
                  log_attrs = [(''addr'', StringValue ''invalid:address:format'')]\<rparr>]\<rparr>\<rparr>
    \<and> Cancel \<notin> set [Task_runs, ListenAndServe_returns (Some bind_error), Task_runs, Select Case_errCh])
   \<and> (logger example_server \<noteq> None \<and> bind_error \<noteq> ErrServerClosed)
   \<and> Run example_server False initial_world
        [Task_runs, ListenAndServe_returns (Some bind_error), Task_runs, Select Case_errCh]
      = Some (Some (Errorf_w ''server error: '' bind_error))
   \<and> Error (Errorf_w ''server error: '' bind_error)
      = ''server error: listen tcp: address invalid:address:format: too many colons in address''"
proof -
  let ?es = "[Task_runs, ListenAndServe_returns (Some bind_error), Task_runs, Select Case_errCh]"
  let ?st = "\<lparr>server = example_server,
              main_pc = Main_returned (Some (Errorf_w ''server error: '' bind_error)),
              task_pc = Task_done,
              errCh = \<lparr>chan_cap = 1, chan_buf = []\<rparr>, ctx_Done = False,
              Shutdown_calls = [],
              run_world = initial_world\<lparr>log_output :=
                [\<lparr>log_logger = Slog 0, log_msg = ''server starting'',
                  log_attrs = [(''addr'', StringValue ''invalid:address:format'')]\<rparr>]\<rparr>\<rparr>"
  have ne: "bind_error \<noteq> ErrServerClosed" by (simp add: bind_error_def)
  have lg: "logger example_server \<noteq> None" by (simp add: example_server_logger)
  have nc: "Cancel \<notin> set ?es" by simp
  note inst = Run_listener_error [of ?es example_server initial_world ?st bind_error]
  from inst lg ne obtain st' where
    run': "exec ?es (Run_start example_server False initial_world) = Some st'"
    and pc': "main_pc st' = Main_returned (Some (Errorf_w ''server error: '' bind_error))"
    by blast
  have run: "exec ?es (Run_start example_server False initial_world) = Some ?st"
    using ne
    by (simp add: Run_start_def task_runs_def listen_returns_def select_errCh_def logger_Info_def
        chan_send_def chan_recv_def make_chan_def example_server_logger example_server_Addr
        initial_world_def)
  have text_eq: "Error (Errorf_w ''server error: '' bind_error)
      = ''server error: listen tcp: address invalid:address:format: too many colons in address''"
    by (simp add: Errorf_w_def bind_error_def)
  have ret: "Run example_server False initial_world ?es
      = Some (Some (Errorf_w ''server error: '' bind_error))"
    unfolding Run_def run by simp
  from run nc lg ne ret text_eq show ?thesis by blast
qed

text \<open>
  C9, as amended. In every run of \<^verbatim>\<open>Run\<close> the \<^verbatim>\<open>select\<close> commits at most once, and exactly
  once when \<^verbatim>\<open>Run\<close> has returned; a run that returned a "server error" has called
  \<^verbatim>\<open>Shutdown\<close> never, and a run whose \<^verbatim>\<open>select\<close> committed to \<^verbatim>\<open>errCh\<close> returned the
  listener's error wrapped as "server error". When the caller waits in the \<^verbatim>\<open>select\<close> and
  \<^verbatim>\<open>errCh\<close> holds the listener's error \<^verbatim>\<open>e\<close>: the case \<^verbatim>\<open>errCh\<close> can proceed and returns
  "server error" wrapping \<^verbatim>\<open>e\<close>, without a call of \<^verbatim>\<open>Shutdown\<close>; if the context is not
  cancelled it is the only case that can proceed; if the context is cancelled as well, the
  case \<^verbatim>\<open>ctx.Done()\<close> can proceed too, Go chooses between the two, and on that choice the
  error stays in the channel and the shutdown path runs.
\<close>

theorem Run_select_commits_once:
  "(exec es (Run_start s done world) = Some st \<longrightarrow>
      length (selects es) \<le> 1
      \<and> (\<forall>r. main_pc st = Main_returned r \<longrightarrow> length (selects es) = 1)
      \<and> \<not> (Shutdown_calls st \<noteq> []
           \<and> (\<exists>e. main_pc st = Main_returned (Some (Errorf_w ''server error: '' e))))
      \<and> (selects es = [Case_errCh] \<longrightarrow>
            Shutdown_calls st = []
            \<and> (\<exists>e. main_pc st = Main_returned (Some (Errorf_w ''server error: '' e))
                  \<and> ListenAndServe_returns (Some e) \<in> set es)))
   \<and> (main_pc st = Main_select \<and> chan_buf (errCh st) = [e] \<longrightarrow>
        (\<exists>st'. step (Select Case_errCh) st = Some st'
              \<and> main_pc st' = Main_returned (Some (Errorf_w ''server error: '' e))
              \<and> Shutdown_calls st' = Shutdown_calls st)
        \<and> (\<not> ctx_Done st \<longrightarrow> step (Select Case_ctx_Done) st = None)
        \<and> (ctx_Done st \<and> logger (server st) \<noteq> None \<longrightarrow>
              (\<exists>st'. step (Select Case_ctx_Done) st = Some st' \<and> main_pc st' = Main_Shutdown
                    \<and> chan_buf (errCh st') = [e])))"
proof -
  have A: "length (selects es) \<le> 1
      \<and> (\<forall>r. main_pc st = Main_returned r \<longrightarrow> length (selects es) = 1)
      \<and> \<not> (Shutdown_calls st \<noteq> []
           \<and> (\<exists>e. main_pc st = Main_returned (Some (Errorf_w ''server error: '' e))))
      \<and> (selects es = [Case_errCh] \<longrightarrow>
            Shutdown_calls st = []
            \<and> (\<exists>e. main_pc st = Main_returned (Some (Errorf_w ''server error: '' e))
                  \<and> ListenAndServe_returns (Some e) \<in> set es))"
    if a: "exec es (Run_start s done world) = Some st"
  proof -
    have inv: "main_inv s es st"
      using a run_inv_exec [of es s "done" world st] by (simp add: run_inv_def)
    have shape: "main_pc st = Main_select \<and> selects es = []
        \<or> main_pc st = Main_panicked \<and> selects es = [Case_ctx_Done]
        \<or> main_pc st = Main_Shutdown \<and> selects es = [Case_ctx_Done]
        \<or> (\<exists>e. main_pc st = Main_returned (Some (Errorf_w ''server error: '' e))
              \<and> selects es = [Case_errCh] \<and> Shutdown_calls st = []
              \<and> ListenAndServe_returns (Some e) \<in> set es)
        \<or> (\<exists>res. main_pc st = Main_returned (shutdown_outcome res)
              \<and> selects es = [Case_ctx_Done] \<and> Shutdown_calls st = [5 * Second])"
      using inv unfolding main_inv_def by (cases "main_pc st") auto
    have 1: "length (selects es) \<le> 1" using shape by auto
    have 2: "\<forall>r. main_pc st = Main_returned r \<longrightarrow> length (selects es) = 1" using shape by auto
    have 3: "\<not> (Shutdown_calls st \<noteq> []
             \<and> (\<exists>e. main_pc st = Main_returned (Some (Errorf_w ''server error: '' e))))"
      using shape by (auto simp: shutdown_outcome_def Errorf_w_def split: option.splits)
    have 4: "selects es = [Case_errCh] \<longrightarrow>
              Shutdown_calls st = []
              \<and> (\<exists>e. main_pc st = Main_returned (Some (Errorf_w ''server error: '' e))
                    \<and> ListenAndServe_returns (Some e) \<in> set es)"
      using shape by auto
    from 1 2 3 4 show ?thesis by blast
  qed
  have B: "(\<exists>st'. step (Select Case_errCh) st = Some st'
              \<and> main_pc st' = Main_returned (Some (Errorf_w ''server error: '' e))
              \<and> Shutdown_calls st' = Shutdown_calls st)
        \<and> (\<not> ctx_Done st \<longrightarrow> step (Select Case_ctx_Done) st = None)
        \<and> (ctx_Done st \<and> logger (server st) \<noteq> None \<longrightarrow>
              (\<exists>st'. step (Select Case_ctx_Done) st = Some st' \<and> main_pc st' = Main_Shutdown
                    \<and> chan_buf (errCh st') = [e]))"
    if b: "main_pc st = Main_select \<and> chan_buf (errCh st) = [e]"
  proof -
    have 1: "\<exists>st'. step (Select Case_errCh) st = Some st'
              \<and> main_pc st' = Main_returned (Some (Errorf_w ''server error: '' e))
              \<and> Shutdown_calls st' = Shutdown_calls st"
      using b by (simp add: select_errCh_def chan_recv_def)
    have 2: "\<not> ctx_Done st \<longrightarrow> step (Select Case_ctx_Done) st = None"
      by (simp add: select_ctx_Done_def)
    have 3: "ctx_Done st \<and> logger (server st) \<noteq> None \<longrightarrow>
              (\<exists>st'. step (Select Case_ctx_Done) st = Some st' \<and> main_pc st' = Main_Shutdown
                    \<and> chan_buf (errCh st') = [e])"
      using b by (auto simp: select_ctx_Done_def logger_Info_def)
    from 1 2 3 show ?thesis by blast
  qed
  from A B show ?thesis by blast
qed

lemma pending_error_state:
  "exec [Task_runs, ListenAndServe_returns (Some bind_error), Task_runs]
        (Run_start example_server done initial_world)
      = Some \<lparr>server = example_server, main_pc = Main_select, task_pc = Task_done,
              errCh = \<lparr>chan_cap = 1, chan_buf = [bind_error]\<rparr>, ctx_Done = done,
              Shutdown_calls = [],
              run_world = initial_world\<lparr>log_output :=
                [\<lparr>log_logger = Slog 0, log_msg = ''server starting'',
                  log_attrs = [(''addr'', StringValue ''invalid:address:format'')]\<rparr>]\<rparr>\<rparr>"
  by (simp add: Run_start_def task_runs_def listen_returns_def logger_Info_def
      chan_send_def make_chan_def example_server_logger example_server_Addr
      initial_world_def bind_error_def)

theorem Run_select_commits_once_witness:
  "exec [Task_runs, ListenAndServe_returns (Some bind_error), Task_runs]
        (Run_start example_server True initial_world)
      = Some \<lparr>server = example_server, main_pc = Main_select, task_pc = Task_done,
              errCh = \<lparr>chan_cap = 1, chan_buf = [bind_error]\<rparr>, ctx_Done = True,
              Shutdown_calls = [],
              run_world = initial_world\<lparr>log_output :=
                [\<lparr>log_logger = Slog 0, log_msg = ''server starting'',
                  log_attrs = [(''addr'', StringValue ''invalid:address:format'')]\<rparr>]\<rparr>\<rparr>
   \<and> logger example_server \<noteq> None
   \<and> length (selects [Task_runs, ListenAndServe_returns (Some bind_error), Task_runs]) \<le> 1
   \<and> (\<exists>st'. step (Select Case_errCh)
               \<lparr>server = example_server, main_pc = Main_select, task_pc = Task_done,
                errCh = \<lparr>chan_cap = 1, chan_buf = [bind_error]\<rparr>, ctx_Done = True,
                Shutdown_calls = [],
                run_world = initial_world\<lparr>log_output :=
                  [\<lparr>log_logger = Slog 0, log_msg = ''server starting'',
                    log_attrs = [(''addr'', StringValue ''invalid:address:format'')]\<rparr>]\<rparr>\<rparr> = Some st'
          \<and> main_pc st' = Main_returned (Some (Errorf_w ''server error: '' bind_error)))
   \<and> (\<exists>st'. step (Select Case_ctx_Done)
               \<lparr>server = example_server, main_pc = Main_select, task_pc = Task_done,
                errCh = \<lparr>chan_cap = 1, chan_buf = [bind_error]\<rparr>, ctx_Done = True,
                Shutdown_calls = [],
                run_world = initial_world\<lparr>log_output :=
                  [\<lparr>log_logger = Slog 0, log_msg = ''server starting'',
                    log_attrs = [(''addr'', StringValue ''invalid:address:format'')]\<rparr>]\<rparr>\<rparr> = Some st'
          \<and> main_pc st' = Main_Shutdown)
   \<and> step (Select Case_ctx_Done)
        \<lparr>server = example_server, main_pc = Main_select, task_pc = Task_done,
         errCh = \<lparr>chan_cap = 1, chan_buf = [bind_error]\<rparr>, ctx_Done = False,
         Shutdown_calls = [],
         run_world = initial_world\<lparr>log_output :=
           [\<lparr>log_logger = Slog 0, log_msg = ''server starting'',
             log_attrs = [(''addr'', StringValue ''invalid:address:format'')]\<rparr>]\<rparr>\<rparr> = None"
proof -
  let ?es = "[Task_runs, ListenAndServe_returns (Some bind_error), Task_runs]"
  let ?st = "\<lambda>done. \<lparr>server = example_server, main_pc = Main_select, task_pc = Task_done,
              errCh = \<lparr>chan_cap = 1, chan_buf = [bind_error]\<rparr>, ctx_Done = done,
              Shutdown_calls = [],
              run_world = initial_world\<lparr>log_output :=
                [\<lparr>log_logger = Slog 0, log_msg = ''server starting'',
                  log_attrs = [(''addr'', StringValue ''invalid:address:format'')]\<rparr>]\<rparr>\<rparr>"
  have lg: "logger example_server \<noteq> None" by (simp add: example_server_logger)
  have runT: "exec ?es (Run_start example_server True initial_world) = Some (?st True)"
    by (rule pending_error_state)
  have runF: "exec ?es (Run_start example_server False initial_world) = Some (?st False)"
    by (rule pending_error_state)
  note instT = Run_select_commits_once [of ?es example_server True initial_world "?st True" bind_error]
  note instF = Run_select_commits_once [of ?es example_server False initial_world "?st False" bind_error]
  from instT runT have 1: "length (selects ?es) \<le> 1" by blast
  from instT lg have 2: "\<exists>st'. step (Select Case_errCh) (?st True) = Some st'
          \<and> main_pc st' = Main_returned (Some (Errorf_w ''server error: '' bind_error))"
    by auto
  from instT lg have 3: "\<exists>st'. step (Select Case_ctx_Done) (?st True) = Some st'
          \<and> main_pc st' = Main_Shutdown"
    by auto
  from instF have 4: "step (Select Case_ctx_Done) (?st False) = None"
    by simp
  from runT lg 1 2 3 4 show ?thesis by blast
qed

text \<open>
  C9 as stated fails. The server is built for the address \<^verbatim>\<open>invalid:address:format\<close> and
  \<^verbatim>\<open>Run\<close> is called with a context that is already cancelled. The task logs,
  \<^verbatim>\<open>ListenAndServe\<close> fails, the task sends the error: the caller waits in the \<^verbatim>\<open>select\<close>,
  the channel holds the error and the context is done. The \<^verbatim>\<open>select\<close> commits to
  \<^verbatim>\<open>ctx.Done()\<close>, \<^verbatim>\<open>Shutdown\<close> returns nil, and \<^verbatim>\<open>Run\<close> returns nil, not the listener's
  error.
\<close>

theorem select_ignores_pending_error_counterexample:
  "map_option main_pc
     (exec [Task_runs, ListenAndServe_returns (Some bind_error), Task_runs]
        (Run_start example_server True initial_world)) = Some Main_select
   \<and> map_option (chan_buf \<circ> errCh)
     (exec [Task_runs, ListenAndServe_returns (Some bind_error), Task_runs]
        (Run_start example_server True initial_world)) = Some [bind_error]
   \<and> map_option ctx_Done
     (exec [Task_runs, ListenAndServe_returns (Some bind_error), Task_runs]
        (Run_start example_server True initial_world)) = Some True
   \<and> bind_error \<noteq> ErrServerClosed
   \<and> Run example_server True initial_world
       [Task_runs, ListenAndServe_returns (Some bind_error), Task_runs,
        Select Case_ctx_Done, Shutdown_returns None] = Some None"
  by (simp add: Run_def Run_start_def task_runs_def listen_returns_def select_ctx_Done_def
      shutdown_returns_def logger_Info_def chan_send_def make_chan_def example_server_logger
      example_server_Addr initial_world_def bind_error_def)

subsection \<open>NewServer\<close>

text \<open>
  C10. For every \<^verbatim>\<open>Config\<close>: the logger of the \<^verbatim>\<open>Server\<close> that \<^verbatim>\<open>NewServer\<close> returns is not
  nil; it is the process default when \<^verbatim>\<open>cfg.Logger\<close> is nil and \<^verbatim>\<open>cfg.Logger\<close> otherwise.
  The \<^verbatim>\<open>RequestLogger\<close> given to the router is built with that same logger. No run of
  \<^verbatim>\<open>Run\<close> on that server reaches the nil-pointer panic of a log call, in the caller or in
  the task, and \<^verbatim>\<open>RequestLogger\<close> with that logger raises no panic of its own: it panics
  exactly when the chain below it does.
\<close>

theorem NewServer_logger_never_nil:
  "logger (NewServer d chi cfg configureRoutes)
      = Some (case Logger cfg of None \<Rightarrow> slog_Default d | Some l \<Rightarrow> l)
   \<and> Server_Handler (httpServer (NewServer d chi cfg configureRoutes))
       = configureRoutes
           \<lparr>middlewares = [RequestID chi, CorrelationID d, RealIP chi, Recoverer chi,
                           RequestLogger (logger (NewServer d chi cfg configureRoutes))],
            routes = []\<rparr>
   \<and> (\<forall>es done world st.
         exec es (Run_start (NewServer d chi cfg configureRoutes) done world) = Some st \<longrightarrow>
         main_pc st \<noteq> Main_panicked \<and> task_pc st \<noteq> Task_panicked)
   \<and> (\<forall>next w r world.
         fst (RequestLogger (logger (NewServer d chi cfg configureRoutes)) next w r world)
           = fst (next (NewWrapResponseWriter w (ProtoMajor r)) r world))"
proof -
  let ?s = "NewServer d chi cfg configureRoutes"
  let ?l = "case Logger cfg of None \<Rightarrow> slog_Default d | Some l' \<Rightarrow> l'"
  have lg: "logger ?s = Some ?l"
    by (cases "Logger cfg") (simp_all add: NewServer_def Let_def)
  have h: "Server_Handler (httpServer ?s)
          = configureRoutes
              \<lparr>middlewares = [RequestID chi, CorrelationID d, RealIP chi, Recoverer chi,
                              RequestLogger (logger ?s)],
               routes = []\<rparr>"
    by (cases "Logger cfg") (simp_all add: NewServer_def Let_def NewRouter_def Use_def)
  have run: "main_pc st \<noteq> Main_panicked \<and> task_pc st \<noteq> Task_panicked"
    if "exec es (Run_start ?s done world) = Some st" for es "done" world st
    using run_inv_exec [OF that] lg by (auto simp: run_inv_def main_inv_def task_inv_def)
  have rl: "fst (RequestLogger (logger ?s) next w r world)
              = fst (next (NewWrapResponseWriter w (ProtoMajor r)) r world)" for "next" w r world
    unfolding lg
    by (cases "next (NewWrapResponseWriter w (ProtoMajor r)) r world")
       (auto simp: RequestLogger_def logger_Info_def Let_def split: option.splits)
  from lg h run rl show ?thesis by blast
qed

theorem NewServer_logger_never_nil_witness:
  "logger (NewServer example_deps example_chi \<lparr>Addr = '':8080'', Logger = None\<rparr> (\<lambda>r. r))
       = Some (Slog 0)
   \<and> logger (NewServer example_deps example_chi \<lparr>Addr = '':8080'', Logger = Some (Slog 5)\<rparr> (\<lambda>r. r))
       = Some (Slog 5)
   \<and> exec [Task_runs, Cancel, Select Case_ctx_Done]
         (Run_start (NewServer example_deps example_chi \<lparr>Addr = '':8080'', Logger = None\<rparr> (\<lambda>r. r))
            False initial_world)
       = Some \<lparr>server = NewServer example_deps example_chi \<lparr>Addr = '':8080'', Logger = None\<rparr> (\<lambda>r. r),
               main_pc = Main_Shutdown, task_pc = Task_ListenAndServe,
               errCh = \<lparr>chan_cap = 1, chan_buf = []\<rparr>, ctx_Done = True,
               Shutdown_calls = [5000000000],
               run_world = initial_world\<lparr>log_output :=
                 [\<lparr>log_logger = Slog 0, log_msg = ''server starting'',
                   log_attrs = [(''addr'', StringValue '':8080'')]\<rparr>,
                  \<lparr>log_logger = Slog 0, log_msg = ''shutdown signal received'', log_attrs = []\<rparr>]\<rparr>\<rparr>
   \<and> Main_Shutdown \<noteq> Main_panicked \<and> Task_ListenAndServe \<noteq> Task_panicked"
proof -
  let ?c1 = "\<lparr>Addr = '':8080'', Logger = None\<rparr>"
  let ?c2 = "\<lparr>Addr = '':8080'', Logger = Some (Slog 5)\<rparr>"
  let ?s1 = "NewServer example_deps example_chi ?c1 (\<lambda>r. r)"
  let ?st = "\<lparr>server = ?s1,
               main_pc = Main_Shutdown, task_pc = Task_ListenAndServe,
               errCh = \<lparr>chan_cap = 1, chan_buf = []\<rparr>, ctx_Done = True,
               Shutdown_calls = [5000000000],
               run_world = initial_world\<lparr>log_output :=
                 [\<lparr>log_logger = Slog 0, log_msg = ''server starting'',
                   log_attrs = [(''addr'', StringValue '':8080'')]\<rparr>,
                  \<lparr>log_logger = Slog 0, log_msg = ''shutdown signal received'', log_attrs = []\<rparr>]\<rparr>\<rparr>"
  note inst1 = NewServer_logger_never_nil [of example_deps example_chi ?c1 "\<lambda>r. r"]
  note inst2 = NewServer_logger_never_nil [of example_deps example_chi ?c2 "\<lambda>r. r"]
  have 1: "logger ?s1 = Some (Slog 0)"
    using inst1 [THEN conjunct1] by (simp add: example_deps_def)
  have 2: "logger (NewServer example_deps example_chi ?c2 (\<lambda>r. r)) = Some (Slog 5)"
    using inst2 [THEN conjunct1] by simp
  have ad: "Server_Addr (httpServer ?s1) = '':8080''"
    by (simp add: NewServer_def Let_def)
  have 3: "exec [Task_runs, Cancel, Select Case_ctx_Done] (Run_start ?s1 False initial_world) = Some ?st"
    by (simp add: Run_start_def task_runs_def select_ctx_Done_def logger_Info_def make_chan_def
        Second_def 1 ad initial_world_def)
  from inst1 [THEN conjunct2, THEN conjunct2, THEN conjunct1] 3
  have 4: "main_pc ?st \<noteq> Main_panicked \<and> task_pc ?st \<noteq> Task_panicked"
    by blast
  from 1 2 3 4 show ?thesis by simp
qed

end
